theory Spec2Isabelle
  imports Complex_Main "HOL-Library.Sublist" "HOL-Library.Word"
begin

section \<open>The chat function of emocare (netlify/functions/chat.js)\<close>

text \<open>
  The repository is one request handler, \<^verbatim>\<open>exports.handler\<close>, with two local
  functions, \<^verbatim>\<open>detectEmotion\<close> and \<^verbatim>\<open>generateReply\<close>, and two phrase tables.
  The embedding follows the source line by line. What JavaScript does implicitly is
  written out: an exception is the left summand of a sum type, \<^verbatim>\<open>Math.random\<close> is a
  sequence of draws handed to the handler, and the conversions \<^verbatim>\<open>String(x)\<close>,
  \<^verbatim>\<open>x || y\<close> and \<^verbatim>\<open>!x\<close> are the functions \<open>ToString\<close> and \<open>ToBoolean\<close> of
  the language definition (ECMA-262), restricted to the values \<^verbatim>\<open>JSON.parse\<close> can
  produce. The handler is declared \<^verbatim>\<open>async\<close> and never awaits; the model gives the
  value its promise resolves to.
\<close>

subsection \<open>Strings\<close>

text \<open>
  A JavaScript string is a sequence of 16-bit code units, and so is a string of the model.
  \<open>str\<close> gives the code units of a literal whose characters are ASCII.
\<close>

type_synonym code_unit = "16 word"

type_synonym js_string = "code_unit list"

definition str :: "string \<Rightarrow> js_string" where
  "str s = map of_char s"

text \<open>
  The code units that \<^verbatim>\<open>trim\<close> removes and that \<^verbatim>\<open>\s\<close> matches in a regular
  expression: the white space and the line terminators of the language, that is tab, line
  feed, vertical tab, form feed, carriage return, space, no-break space, the other space
  separators of Unicode (U+1680, U+2000 to U+200A, U+202F, U+205F, U+3000), the line and
  paragraph separators and the byte order mark.
\<close>

definition is_white_space :: "code_unit \<Rightarrow> bool" where
  "is_white_space c \<longleftrightarrow>
     c = 0x0009 \<or> c = 0x000A \<or> c = 0x000B \<or> c = 0x000C \<or> c = 0x000D \<or> c = 0x0020
     \<or> c = 0x00A0 \<or> c = 0x1680 \<or> (0x2000 \<le> c \<and> c \<le> 0x200A)
     \<or> c = 0x2028 \<or> c = 0x2029 \<or> c = 0x202F \<or> c = 0x205F \<or> c = 0x3000 \<or> c = 0xFEFF"

text \<open>\<^verbatim>\<open>s.trim()\<close>: white space is removed at both ends.\<close>

definition trim :: "js_string \<Rightarrow> js_string" where
  "trim s = rev (dropWhile is_white_space (rev (dropWhile is_white_space s)))"

text \<open>\<^verbatim>\<open>s.includes(w)\<close>: \<open>w\<close> starts at some position of \<open>s\<close>.\<close>

fun includes_str :: "js_string \<Rightarrow> js_string \<Rightarrow> bool" where
  "includes_str [] w = (w = [])"
| "includes_str (c # cs) w = (prefix w (c # cs) \<or> includes_str cs w)"

text \<open>\<^verbatim>\<open>ws.some(p)\<close>\<close>

fun some :: "('a \<Rightarrow> bool) \<Rightarrow> 'a list \<Rightarrow> bool" where
  "some p [] = False"
| "some p (w # ws) = (p w \<or> some p ws)"

text \<open>
  \<^verbatim>\<open>s.split(/\s+/)\<close>: the string is scanned from the left; every maximal run of white
  space ends the current piece and starts a new one, so a string that begins or ends with
  white space gets an empty first or last piece, and the empty string is split into one
  empty piece. The flag tells whether the scan is inside a run of white space.
\<close>

fun split_scan :: "bool \<Rightarrow> js_string \<Rightarrow> js_string list" where
  "split_scan in_run [] = [[]]"
| "split_scan in_run (c # cs) =
     (if is_white_space c then
        (if in_run then split_scan True cs else [] # split_scan True cs)
      else
        (case split_scan False cs of
           [] \<Rightarrow> [[c]]
         | piece # pieces \<Rightarrow> (c # piece) # pieces))"

definition split_ws :: "js_string \<Rightarrow> js_string list" where
  "split_ws s = split_scan False s"

text \<open>\<^verbatim>\<open>xs.join(sep)\<close> on a list of strings.\<close>

fun join :: "js_string \<Rightarrow> js_string list \<Rightarrow> js_string" where
  "join sep [] = []"
| "join sep [x] = x"
| "join sep (x # y # ys) = x @ sep @ join sep (y # ys)"

subsection \<open>What the JavaScript runtime provides\<close>

text \<open>
  A number of JavaScript, as \<^verbatim>\<open>JSON.parse\<close> can return it: a finite value, which is a
  real number, or an infinity (the text \<^verbatim>\<open>1e999\<close> is read as \<^verbatim>\<open>Infinity\<close>). Negative
  zero is not told apart from zero; both are falsy and both print as \<^verbatim>\<open>0\<close>.
\<close>

datatype js_number = Finite real | PosInfinity | NegInfinity

text \<open>
  Two functions of the runtime are not code of the repository, and their definitions are
  long tables and algorithms of the language and of Unicode: \<^verbatim>\<open>toLowerCase\<close> on
  strings and the printing of a number, \<^verbatim>\<open>String(n)\<close>. The model takes both as
  parameters, so what is proved holds whatever they compute.
\<close>

record runtime =
  toLowerCase :: "js_string \<Rightarrow> js_string"
  Number_toString :: "js_number \<Rightarrow> js_string"

subsection \<open>detectEmotion\<close>

definition detectEmotion :: "runtime \<Rightarrow> js_string \<Rightarrow> js_string" where
  "detectEmotion rt t =
     (let s = toLowerCase rt t in
      if some (\<lambda>w. includes_str s w)
           [str ''sad'', str ''unhappy'', str ''depressed'', str ''cry'', str ''lonely'']
      then str ''sad''
      else if some (\<lambda>w. includes_str s w)
           [str ''happy'', str ''glad'', str ''awesome'', str ''great'', str ''joy'']
      then str ''happy''
      else if some (\<lambda>w. includes_str s w)
           [str ''angry'', str ''mad'', str ''furious'', str ''annoyed'', str ''hate'']
      then str ''angry''
      else if some (\<lambda>w. includes_str s w)
           [str ''anxious'', str ''scared'', str ''nervous'', str ''worried'', str ''panic'']
      then str ''anxious''
      else if some (\<lambda>w. includes_str s w) [str ''love'', str ''luv'']
      then str ''love''
      else if some (\<lambda>w. includes_str s w) [str ''surprise'', str ''surprised'', str ''shocked'']
      then str ''surprised''
      else str ''neutral'')"

subsection \<open>The phrase tables\<close>

text \<open>The dash of the source's phrases, U+2014.\<close>

definition em_dash :: js_string where
  "em_dash = [0x2014]"

definition VALIDATION :: "(js_string \<times> js_string list) list" where
  "VALIDATION =
    [(str ''sad'', [str ''I'm really sorry you're going through this.'',
                   str ''That must be so difficult'' @ em_dash @ str ''thank you for sharing.'']),
     (str ''angry'', [str ''I can hear the anger in your words.'',
                     str ''Anger is a natural reaction.'']),
     (str ''anxious'', [str ''Being anxious feels overwhelming'' @ em_dash @ str ''you're not alone.'',
                       str ''I hear that worry. Let's try something grounding.'']),
     (str ''happy'', [str ''That's wonderful to hear!'', str ''I'm glad you're feeling good.'']),
     (str ''love'', [str ''That's lovely'' @ em_dash @ str ''feeling connected is meaningful.'',
                    str ''Happy you have warmth in your life.'']),
     (str ''surprised'', [str ''That sounds surprising.'', str ''That must have been unexpected.'']),
     (str ''neutral'', [str ''I'm here and listening.'', str ''Thanks for sharing.''])]"

definition SUGGESTIONS :: "(js_string \<times> js_string list) list" where
  "SUGGESTIONS =
    [(str ''sad'', [str ''Would you like a quick breathing exercise?'',
                   str ''Sometimes writing one sentence about what you feel can help.'']),
     (str ''angry'', [str ''Try slow 4-4-4 breathing.'',
                     str ''Name one thing you can change and one you can't.'']),
     (str ''anxious'', [str ''Try grounding: 5 things you see, 4 touch, 3 hear.'',
                       str ''Slow deep breaths can help.'']),
     (str ''happy'', [str ''Want to save this as a happy memory?'',
                     str ''Want to celebrate with a compliment?'']),
     (str ''love'', [str ''Would you like to reflect on what made this connection strong?'',
                    str ''Note this as a positive memory?'']),
     (str ''surprised'', [str ''Do you want to unpack what surprised you?'',
                         str ''If it's good'' @ em_dash @ str ''congrats! If not, I'm here.'']),
     (str ''neutral'', [str ''Would you like a prompt'' @ em_dash
                         @ str (''like 'What happened today?'' @ [CHR 0x27]),
                       str ''We can try a short check-in exercise.''])]"

text \<open>
  \<^verbatim>\<open>TABLE[emotion] || TABLE.neutral\<close>: an entry is a list, which is truthy even when
  empty, so the right operand is taken exactly when the table has no entry for the key.
  (Keys that name a property of \<^verbatim>\<open>Object.prototype\<close> are outside the model;
  \<open>detectEmotion\<close> returns none of them.)
\<close>

definition entry_or_neutral :: "(js_string \<times> js_string list) list \<Rightarrow> js_string \<Rightarrow> js_string list" where
  "entry_or_neutral table emotion =
     (case map_of table emotion of
        Some phrases \<Rightarrow> phrases
      | None \<Rightarrow> (case map_of table (str ''neutral'') of Some phrases \<Rightarrow> phrases | None \<Rightarrow> []))"

subsection \<open>generateReply\<close>

text \<open>
  \<^verbatim>\<open>v[Math.floor(r * v.length)]\<close> for the draw \<open>r\<close> that \<^verbatim>\<open>Math.random()\<close>
  returned. An index outside the list reads \<^verbatim>\<open>undefined\<close>, here \<open>None\<close>.
\<close>

definition pick :: "real \<Rightarrow> js_string list \<Rightarrow> js_string option" where
  "pick r v =
     (let i = \<lfloor>r * real (length v)\<rfloor>
      in if 0 \<le> i \<and> i < int (length v) then Some (v ! nat i) else None)"

text \<open>The reflection clause, lines 46 and 47 of the source.\<close>

definition reflection :: "js_string \<Rightarrow> js_string" where
  \<open>reflection userText =
     (let words = split_ws (trim userText)
      in if length words \<noteq> 0
         then str ''You said: "'' @ join (str '' '') (take 12 words)
              @ (if length words > 12 then str ''...'' else []) @ str ''"''
         else [])\<close>

text \<open>\<^verbatim>\<open>pieces.filter(Boolean)\<close>: \<^verbatim>\<open>undefined\<close> and the empty string are dropped.\<close>

fun filter_Boolean :: "js_string option list \<Rightarrow> js_string list" where
  "filter_Boolean [] = []"
| "filter_Boolean (None # ps) = filter_Boolean ps"
| "filter_Boolean (Some p # ps) = (if p = [] then filter_Boolean ps else p # filter_Boolean ps)"

text \<open>
  \<open>rnd 0\<close> and \<open>rnd 1\<close> are the results of the two calls of \<^verbatim>\<open>Math.random\<close>,
  in the order of the calls.
\<close>

definition generateReply :: "(nat \<Rightarrow> real) \<Rightarrow> js_string \<Rightarrow> js_string \<Rightarrow> js_string" where
  "generateReply rnd userText emotion =
     (let v = entry_or_neutral VALIDATION emotion;
          s = entry_or_neutral SUGGESTIONS emotion;
          val = pick (rnd 0) v;
          sug = pick (rnd 1) s
      in join (str '' '') (filter_Boolean [val, Some (reflection userText), sug]))"

subsection \<open>JavaScript values and their conversions\<close>

text \<open>
  The values \<^verbatim>\<open>JSON.parse\<close> returns, and \<^verbatim>\<open>undefined\<close>, which reading a missing
  property gives. An object is the list of its own properties, each name once, and
  \<^const>\<open>map_of\<close> reads a property.
\<close>

datatype js_value =
    JUndefined
  | JNull
  | JBool bool
  | JNumber js_number
  | JString js_string
  | JArray "js_value list"
  | JObject "(js_string \<times> js_value) list"

datatype error = SyntaxError | TypeError

text \<open>
  \<open>ToBoolean\<close> decides \<^verbatim>\<open>x || y\<close> and \<^verbatim>\<open>!x\<close>: \<^verbatim>\<open>undefined\<close>, \<^verbatim>\<open>null\<close>,
  \<^verbatim>\<open>false\<close>, zero and the empty string are falsy, every array and object is truthy.
  (\<^verbatim>\<open>NaN\<close> is falsy too, and \<^verbatim>\<open>JSON.parse\<close> never returns it.)
\<close>

fun ToBoolean :: "js_value \<Rightarrow> bool" where
  "ToBoolean JUndefined = False"
| "ToBoolean JNull = False"
| "ToBoolean (JBool b) = b"
| "ToBoolean (JNumber n) = (n \<noteq> Finite 0)"
| "ToBoolean (JString s) = (s \<noteq> [])"
| "ToBoolean (JArray xs) = True"
| "ToBoolean (JObject ps) = True"

text \<open>\<^verbatim>\<open>x || y\<close>\<close>

definition or_else :: "js_value \<Rightarrow> js_value \<Rightarrow> js_value" where
  "or_else x y = (if ToBoolean x then x else y)"

text \<open>The first exception of a list of results, from the left, or else all the values.\<close>

fun collect :: "(error + 'a) list \<Rightarrow> error + 'a list" where
  "collect [] = Inr []"
| "collect (Inl e # rs) = Inl e"
| "collect (Inr x # rs) = (case collect rs of Inl e \<Rightarrow> Inl e | Inr xs \<Rightarrow> Inr (x # xs))"

text \<open>
  \<^verbatim>\<open>String(x)\<close>, that is \<open>ToString\<close>. A number is printed by the runtime. An array
  is converted by \<^verbatim>\<open>Array.prototype.join\<close>: its elements are converted in turn and
  joined by commas, \<^verbatim>\<open>null\<close> and \<^verbatim>\<open>undefined\<close> elements giving the empty string. An
  object is converted by \<open>OrdinaryToPrimitive\<close>, which reads its properties
  \<^verbatim>\<open>toString\<close> and \<^verbatim>\<open>valueOf\<close> and calls them when they are functions. An object
  without an own property \<^verbatim>\<open>toString\<close> inherits \<^verbatim>\<open>Object.prototype.toString\<close>, which
  returns \<^verbatim>\<open>[object Object]\<close>. An own property \<^verbatim>\<open>toString\<close> hides the inherited
  function; its value came from \<^verbatim>\<open>JSON.parse\<close> and is no function, and neither an own nor
  the inherited \<^verbatim>\<open>valueOf\<close> yields a primitive value, so the conversion throws a
  \<^verbatim>\<open>TypeError\<close> (as \<^verbatim>\<open>String({toString: 1})\<close> does).
\<close>

fun ToString :: "runtime \<Rightarrow> js_value \<Rightarrow> error + js_string" where
  "ToString rt JUndefined = Inr (str ''undefined'')"
| "ToString rt JNull = Inr (str ''null'')"
| "ToString rt (JBool b) = Inr (if b then str ''true'' else str ''false'')"
| "ToString rt (JNumber n) = Inr (Number_toString rt n)"
| "ToString rt (JString s) = Inr s"
| "ToString rt (JArray xs) =
     (case collect (map (\<lambda>x. if x = JUndefined \<or> x = JNull then Inr [] else ToString rt x) xs) of
        Inl e \<Rightarrow> Inl e
      | Inr strs \<Rightarrow> Inr (join (str '','') strs))"
| "ToString rt (JObject ps) =
     (case map_of ps (str ''toString'') of
        None \<Rightarrow> Inr (str ''[object Object]'')
      | Some f \<Rightarrow> Inl TypeError)"

text \<open>
  \<^verbatim>\<open>data.key\<close> for the two keys the handler reads, \<^verbatim>\<open>text\<close> and \<^verbatim>\<open>session_id\<close>.
  Reading a property of \<^verbatim>\<open>null\<close> or \<^verbatim>\<open>undefined\<close> throws a \<^verbatim>\<open>TypeError\<close>; an
  object gives its own property of that name or \<^verbatim>\<open>undefined\<close>; numbers, booleans,
  strings and arrays have no property of either name.
\<close>

fun Get :: "js_value \<Rightarrow> js_string \<Rightarrow> error + js_value" where
  "Get JUndefined key = Inl TypeError"
| "Get JNull key = Inl TypeError"
| "Get (JObject ps) key = Inr (case map_of ps key of None \<Rightarrow> JUndefined | Some x \<Rightarrow> x)"
| "Get x key = Inr JUndefined"

subsection \<open>The handler\<close>

text \<open>
  The text of a request body is kept as what \<^verbatim>\<open>JSON.parse\<close> makes of it: \<open>Malformed s\<close>
  is the string \<open>s\<close>, which \<^verbatim>\<open>JSON.parse\<close> rejects with a \<^verbatim>\<open>SyntaxError\<close>, and
  \<open>Json x\<close> is a string that \<^verbatim>\<open>JSON.parse\<close> reads as the value \<open>x\<close>. The empty
  string is \<open>Malformed []\<close>; it is the only falsy string. \<^verbatim>\<open>event.body\<close> is \<open>None\<close>
  when the request has no body (\<^verbatim>\<open>null\<close> or \<^verbatim>\<open>undefined\<close>).
\<close>

datatype body_text = Malformed js_string | Json js_value

fun JSON_parse :: "body_text \<Rightarrow> error + js_value" where
  "JSON_parse (Malformed s) = Inl SyntaxError"
| "JSON_parse (Json x) = Inr x"

record event =
  body :: "body_text option"

text \<open>
  The body of a response is the value handed to \<^verbatim>\<open>JSON.stringify\<close>; the serialisation
  itself is not modelled. The error responses of the source have no \<^verbatim>\<open>headers\<close> field.
\<close>

datatype json_text = JSON_stringify js_value

record response =
  statusCode :: int
  headers :: "(js_string \<times> js_string) list option"
  body :: json_text

text \<open>\<^verbatim>\<open>event.body || '{}'\<close>\<close>

definition body_or_empty_object :: "event \<Rightarrow> body_text" where
  "body_or_empty_object ev =
     (case event.body ev of
        None \<Rightarrow> Json (JObject [])
      | Some b \<Rightarrow> if b = Malformed [] then Json (JObject []) else b)"

text \<open>Line 4: \<^verbatim>\<open>String(data.text || '').trim()\<close>\<close>

definition text_of :: "runtime \<Rightarrow> js_value \<Rightarrow> error + js_string" where
  "text_of rt data =
     (case Get data (str ''text'') of
        Inl e \<Rightarrow> Inl e
      | Inr x \<Rightarrow> (case ToString rt (or_else x (JString [])) of
                   Inl e \<Rightarrow> Inl e
                 | Inr s \<Rightarrow> Inr (trim s)))"

text \<open>Line 5: \<^verbatim>\<open>String(data.session_id || 'default_session')\<close>\<close>

definition sessionId_of :: "runtime \<Rightarrow> js_value \<Rightarrow> error + js_string" where
  "sessionId_of rt data =
     (case Get data (str ''session_id'') of
        Inl e \<Rightarrow> Inl e
      | Inr x \<Rightarrow> ToString rt (or_else x (JString (str ''default_session''))))"

text \<open>
  The body of the \<^verbatim>\<open>try\<close> block. The result is the response together with the number
  of calls of \<^verbatim>\<open>Math.random\<close> made on the way; \<open>rnd k\<close> is what call number
  \<open>k\<close> returns.
\<close>

definition try_block :: "runtime \<Rightarrow> (nat \<Rightarrow> real) \<Rightarrow> event \<Rightarrow> error + response \<times> nat" where
  "try_block rt rnd ev =
     (case JSON_parse (body_or_empty_object ev) of
        Inl e \<Rightarrow> Inl e
      | Inr data \<Rightarrow>
     (case text_of rt data of
        Inl e \<Rightarrow> Inl e
      | Inr text \<Rightarrow>
     (case sessionId_of rt data of
        Inl e \<Rightarrow> Inl e
      | Inr sessionId \<Rightarrow>
          if text = [] then
            Inr (\<lparr>statusCode = 400, headers = None,
                   body = JSON_stringify (JObject
                     [(str ''error'', JString (str ''No text provided.''))])\<rparr>, 0)
          else
            let emotion = detectEmotion rt text;
                reply = generateReply rnd text emotion
            in Inr (\<lparr>statusCode = 200,
                      headers = Some [(str ''Content-Type'', str ''application/json'')],
                      body = JSON_stringify (JObject
                        [(str ''emotion'', JString emotion), (str ''scores'', JObject []),
                         (str ''reply'', JString reply), (str ''history'', JArray [])])\<rparr>, 2))))"

text \<open>The \<^verbatim>\<open>catch\<close> block answers every exception alike.\<close>

definition handler :: "runtime \<Rightarrow> (nat \<Rightarrow> real) \<Rightarrow> event \<Rightarrow> response \<times> nat" where
  "handler rt rnd ev =
     (case try_block rt rnd ev of
        Inl e \<Rightarrow>
          (\<lparr>statusCode = 500, headers = None,
            body = JSON_stringify (JObject
              [(str ''error'', JString (str ''Server error.''))])\<rparr>, 0)
      | Inr result \<Rightarrow> result)"

section \<open>What the specification says\<close>

text \<open>
  The definitions of this section follow the words of the specification, not the code;
  the theorems below compare the two.
\<close>

text \<open>The seven emotion labels of the data model.\<close>

definition EmotionLabels :: "js_string list" where
  "EmotionLabels =
     [str ''sad'', str ''happy'', str ''angry'', str ''anxious'', str ''love'', str ''surprised'',
      str ''neutral'']"

text \<open>
  The classifier of the specification: the text is lower-cased, and the keyword sets are
  tested in their priority order by substring containment (\<^const>\<open>sublist\<close>) against the
  lower-cased text; the first set with a keyword in the text gives the label, and
  \<open>neutral\<close> is the label when there is none. \<open>lower\<close> is the lower-casing.
\<close>

definition keyword_sets :: "(js_string \<times> js_string set) list" where
  "keyword_sets =
    [(str ''sad'', {str ''sad'', str ''unhappy'', str ''depressed'', str ''cry'', str ''lonely''}),
     (str ''happy'', {str ''happy'', str ''glad'', str ''awesome'', str ''great'', str ''joy''}),
     (str ''angry'', {str ''angry'', str ''mad'', str ''furious'', str ''annoyed'', str ''hate''}),
     (str ''anxious'', {str ''anxious'', str ''scared'', str ''nervous'', str ''worried'', str ''panic''}),
     (str ''love'', {str ''love'', str ''luv''}),
     (str ''surprised'', {str ''surprise'', str ''surprised'', str ''shocked''})]"

fun first_match :: "js_string \<Rightarrow> (js_string \<times> js_string set) list \<Rightarrow> js_string" where
  "first_match s [] = str ''neutral''"
| "first_match s ((label, keywords) # rest) =
     (if \<exists>w \<in> keywords. sublist w s then label else first_match s rest)"

definition classify :: "(js_string \<Rightarrow> js_string) \<Rightarrow> js_string \<Rightarrow> js_string" where
  "classify lower text = first_match (lower text) keyword_sets"

text \<open>
  Lower case on ASCII: the letters \<^verbatim>\<open>A\<close> to \<^verbatim>\<open>Z\<close> go to \<^verbatim>\<open>a\<close> to \<^verbatim>\<open>z\<close>, and
  every other code unit stays. Two strings are the same but for the case of their ASCII
  letters when \<open>map ascii_lower\<close> makes them equal.
\<close>

definition ascii_lower :: "code_unit \<Rightarrow> code_unit" where
  "ascii_lower c = (if 0x41 \<le> c \<and> c \<le> 0x5A then c + 0x20 else c)"

definition is_ASCII :: "js_string \<Rightarrow> bool" where
  "is_ASCII s \<longleftrightarrow> (\<forall>c \<in> set s. c < 0x80)"

text \<open>
  What \<^verbatim>\<open>toLowerCase\<close> of JavaScript does to ASCII text: it converts a string code
  point by code point, and the conversion of an ASCII character is its ASCII lower case
  whatever stands before or after it. So a stretch \<open>u\<close> of ASCII characters inside a
  string becomes \<open>map ascii_lower u\<close> at its place, and nothing is put before it when
  nothing stands before it, nor after it when nothing stands after it. (What becomes of
  the other characters is left open: the Kelvin sign U+212A becomes \<^verbatim>\<open>k\<close>, a capital
  sigma depends on its neighbours.)
\<close>

definition lowers_ASCII :: "(js_string \<Rightarrow> js_string) \<Rightarrow> bool" where
  "lowers_ASCII lower \<longleftrightarrow>
     (\<forall>a u b. is_ASCII u \<longrightarrow>
        (\<exists>x y. lower (a @ u @ b) = x @ map ascii_lower u @ y
               \<and> (a = [] \<longrightarrow> x = []) \<and> (b = [] \<longrightarrow> y = [])))"

text \<open>
  The words of a text: its maximal runs of characters that are not white space, from
  left to right.
\<close>

function words_of :: "js_string \<Rightarrow> js_string list" where
  "words_of s =
     (case dropWhile is_white_space s of
        [] \<Rightarrow> []
      | c # cs \<Rightarrow> (c # takeWhile (\<lambda>x. \<not> is_white_space x) cs)
                  # words_of (dropWhile (\<lambda>x. \<not> is_white_space x) cs))"
  by pat_completeness auto
termination
proof (relation "measure length")
  show "wf (measure length)" by simp
next
  fix s :: js_string and c cs
  assume "dropWhile is_white_space s = c # cs"
  then have "length cs < length s"
    using length_dropWhile_le [of is_white_space s] by simp
  moreover have "length (dropWhile (\<lambda>x. \<not> is_white_space x) cs) \<le> length cs"
    by (rule length_dropWhile_le)
  ultimately show "(dropWhile (\<lambda>x. \<not> is_white_space x) cs, s) \<in> measure length"
    by simp
qed

declare words_of.simps [simp del]

text \<open>The two error responses and the success response of the interface.\<close>

definition no_text_response :: response where
  "no_text_response =
     \<lparr>statusCode = 400, headers = None,
      body = JSON_stringify (JObject [(str ''error'', JString (str ''No text provided.''))])\<rparr>"

definition server_error_response :: response where
  "server_error_response =
     \<lparr>statusCode = 500, headers = None,
      body = JSON_stringify (JObject [(str ''error'', JString (str ''Server error.''))])\<rparr>"

definition success_response :: "js_string \<Rightarrow> js_string \<Rightarrow> response" where
  "success_response emotion reply =
     \<lparr>statusCode = 200,
      headers = Some [(str ''Content-Type'', str ''application/json'')],
      body = JSON_stringify (JObject
        [(str ''emotion'', JString emotion), (str ''scores'', JObject []),
         (str ''reply'', JString reply), (str ''history'', JArray [])])\<rparr>"

subsection \<open>When the conversion to a string throws\<close>

text \<open>
  The values on which \<^verbatim>\<open>String(x)\<close> throws: an object with an own property
  \<^verbatim>\<open>toString\<close>, and an array that has such a value among its elements.
\<close>

fun String_throws :: "js_value \<Rightarrow> bool" where
  "String_throws (JObject ps) = (map_of ps (str ''toString'') \<noteq> None)"
| "String_throws (JArray xs) = (\<exists>x \<in> set xs. String_throws x)"
| "String_throws x = False"

text \<open>The field of a parsed body, \<^verbatim>\<open>undefined\<close> when the body has no such field.\<close>

definition field :: "js_value \<Rightarrow> js_string \<Rightarrow> js_value" where
  "field data key =
     (case data of
        JObject ps \<Rightarrow> (case map_of ps key of None \<Rightarrow> JUndefined | Some x \<Rightarrow> x)
      | _ \<Rightarrow> JUndefined)"

subsection \<open>Inputs of the examples\<close>

text \<open>
  A string of every white space code unit once, and a string of three code units that look
  like white space and are none for \<^verbatim>\<open>trim\<close> and \<^verbatim>\<open>\s\<close>: next line (U+0085), the
  Mongolian vowel separator (U+180E) and the zero width space (U+200B).
\<close>

definition all_white_space :: js_string where
  "all_white_space =
     [0x0009, 0x000A, 0x000B, 0x000C, 0x000D, 0x0020, 0x00A0, 0x1680, 0x2000, 0x2001, 0x2002,
      0x2003, 0x2004, 0x2005, 0x2006, 0x2007, 0x2008, 0x2009, 0x200A, 0x2028, 0x2029, 0x202F,
      0x205F, 0x3000, 0xFEFF]"

definition no_white_space :: js_string where
  "no_white_space = [0x0085, 0x180E, 0x200B]"

text \<open>A source of random numbers whose every draw is \<open>r\<close>.\<close>

definition always :: "real \<Rightarrow> nat \<Rightarrow> real" where
  "always r k = r"

text \<open>
  The value of the JSON text \<^verbatim>\<open>{"toString": 1}\<close>: an object whose own property
  \<^verbatim>\<open>toString\<close> is not a function.
\<close>

definition own_toString :: js_value where
  "own_toString = JObject [(str ''toString'', JNumber (Finite 1))]"

text \<open>
  A runtime to evaluate the examples with. The theorems hold for every runtime; this one
  is not JavaScript's, and it serves at inputs where it does what JavaScript does. It
  lower-cases the ASCII letters and the Kelvin sign (U+212A, whose lower case is
  \<^verbatim>\<open>k\<close>) and no other character, and it prints the integer part of a number in
  decimal. That is what JavaScript does on strings of ASCII characters, Kelvin signs and
  white space, on the integers up to \<open>2\<^sup>5\<^sup>3\<close> in magnitude and on the infinities;
  the examples stay inside this range, and none of them prints a number.
\<close>

definition example_lower :: "code_unit \<Rightarrow> code_unit" where
  "example_lower c = (if c = 0x212A then 0x6B else ascii_lower c)"

fun digits :: "nat \<Rightarrow> js_string" where
  "digits n = (if n < 10 then [of_nat (48 + n)] else digits (n div 10) @ [of_nat (48 + n mod 10)])"

fun decimal :: "js_number \<Rightarrow> js_string" where
  "decimal (Finite r) = (if r < 0 then str ''-'' @ digits (nat \<lfloor>- r\<rfloor>) else digits (nat \<lfloor>r\<rfloor>))"
| "decimal PosInfinity = str ''Infinity''"
| "decimal NegInfinity = str ''-Infinity''"

definition example_runtime :: runtime where
  "example_runtime = \<lparr>toLowerCase = map example_lower, Number_toString = decimal\<rparr>"

section \<open>Lemmas\<close>

subsection \<open>Strings\<close>

lemma includes_str_sublist: "includes_str s w \<longleftrightarrow> sublist w s"
  by (induction s) (simp_all add: sublist_Cons_right)

lemma some_set: "some p ws \<longleftrightarrow> (\<exists>w \<in> set ws. p w)"
  by (induction ws) simp_all

lemma words_of_Nil: "words_of [] = []"
  by (simp add: words_of.simps)

lemma words_of_all_space:
  assumes "\<forall>c \<in> set s. is_white_space c"
  shows "words_of s = []"
proof -
  have "dropWhile is_white_space s = []" using assms by simp
  then show ?thesis by (subst words_of.simps) (simp only: list.case)
qed

lemma words_of_dropWhile: "words_of (dropWhile is_white_space s) = words_of s"
  by (subst (1 2) words_of.simps) (simp add: dropWhile_idem)

lemma split_scan_not_Nil: "split_scan b s \<noteq> []"
  by (induction s arbitrary: b) (auto split: list.splits)

lemma split_scan_True: "split_scan True s = split_scan False (dropWhile is_white_space s)"
  by (induction s) simp_all

lemma split_scan_word:
  "\<forall>c \<in> set u. \<not> is_white_space c \<Longrightarrow>
   split_scan False (u @ r) = (u @ hd (split_scan False r)) # tl (split_scan False r)"
  using split_scan_not_Nil [of False r]
  by (induction u) (auto split: list.splits)

lemma split_scan_words_of:
  "s \<noteq> [] \<Longrightarrow> \<not> is_white_space (hd s) \<Longrightarrow> \<not> is_white_space (last s) \<Longrightarrow>
   split_scan False s = words_of s"
proof (induction "length s" arbitrary: s rule: less_induct)
  case less
  let ?nw = "\<lambda>x. \<not> is_white_space x"
  from less.prems obtain c cs where s: "s = c # cs" and c: "\<not> is_white_space c"
    by (cases s) auto
  define u where "u = takeWhile ?nw cs"
  define r where "r = dropWhile ?nw cs"
  have cs: "cs = u @ r" by (simp add: u_def r_def)
  have u: "\<forall>x \<in> set (c # u). \<not> is_white_space x"
    using c by (auto simp: u_def dest: set_takeWhileD)
  have w: "words_of s = (c # u) # words_of r"
    using c by (subst words_of.simps) (simp add: s u_def r_def)
  have sp: "split_scan False s = ((c # u) @ hd (split_scan False r)) # tl (split_scan False r)"
    using split_scan_word [OF u, of r] by (simp add: s cs)
  show ?case
  proof (cases r)
    case Nil
    then show ?thesis using w sp by (simp add: words_of_Nil)
  next
    case (Cons d ds)
    then have d: "is_white_space d"
      using hd_dropWhile [of ?nw cs] by (simp add: r_def)
    define r' where "r' = dropWhile is_white_space ds"
    have last_s: "last s = last r" by (simp add: s cs Cons)
    have "r' \<noteq> []"
    proof
      assume "r' = []"
      then have "\<forall>x \<in> set ds. is_white_space x"
        by (simp add: r'_def dropWhile_eq_Nil_conv)
      then have "\<forall>x \<in> set r. is_white_space x" using d Cons by simp
      moreover have "last r \<in> set r" using Cons by simp
      ultimately show False using less.prems(3) last_s by auto
    qed
    moreover from this have "\<not> is_white_space (hd r')"
      using hd_dropWhile [of is_white_space ds] by (simp add: r'_def)
    moreover have "last r' = last s"
    proof -
      have "ds = takeWhile is_white_space ds @ r'" by (simp add: r'_def)
      then have "last ds = last r'" using \<open>r' \<noteq> []\<close> by (metis last_appendR)
      moreover have "ds \<noteq> []" using \<open>r' \<noteq> []\<close> by (auto simp: r'_def)
      ultimately show ?thesis using last_s Cons by simp
    qed
    moreover have "length r' < length s"
      using length_dropWhile_le [of is_white_space ds] by (simp add: r'_def s cs Cons)
    ultimately have IH: "split_scan False r' = words_of r'"
      using less.hyps [of r'] less.prems(3) by simp
    have "split_scan False r = [] # split_scan False r'"
      using d by (simp add: Cons split_scan_True r'_def)
    moreover have "words_of r = words_of r'"
      using d words_of_dropWhile [of r] by (simp add: Cons r'_def)
    ultimately show ?thesis using w sp IH by simp
  qed
qed

lemma words_of_append_space:
  "\<forall>c \<in> set b. is_white_space c \<Longrightarrow> words_of (a @ b) = words_of a"
proof (induction a rule: words_of.induct)
  case (1 s)
  let ?nw = "\<lambda>x. \<not> is_white_space x"
  show ?case
  proof (cases "dropWhile is_white_space s")
    case Nil
    then have "\<forall>c \<in> set (s @ b). is_white_space c"
      using 1(2) by (auto simp: dropWhile_eq_Nil_conv)
    then have "words_of (s @ b) = []" by (rule words_of_all_space)
    moreover have "words_of s = []" using Nil by (intro words_of_all_space) simp
    ultimately show ?thesis by simp
  next
    case (Cons c cs)
    then have "\<exists>x \<in> set s. \<not> is_white_space x"
      by (metis dropWhile_eq_Nil_conv list.distinct(1))
    then obtain x where "x \<in> set s" "\<not> is_white_space x" by blast
    then have "dropWhile is_white_space (s @ b) = dropWhile is_white_space s @ b"
      by (rule dropWhile_append1)
    then have dw: "dropWhile is_white_space (s @ b) = c # cs @ b"
      using Cons by simp
    have IH: "words_of (dropWhile ?nw cs @ b) = words_of (dropWhile ?nw cs)"
      using 1(1) [OF Cons] 1(2) by simp
    show ?thesis
    proof (cases "\<forall>x \<in> set cs. \<not> is_white_space x")
      case True
      have b: "takeWhile ?nw b = []" "dropWhile ?nw b = b"
        using 1(2) by (cases b; simp)+
      have t: "takeWhile ?nw (cs @ b) = cs" "dropWhile ?nw (cs @ b) = b"
         "takeWhile ?nw cs = cs" "dropWhile ?nw cs = []"
        using True b by simp_all
      have "words_of (s @ b) = (c # cs) # words_of b"
        by (subst words_of.simps) (simp only: dw list.case t)
      moreover have "words_of s = (c # cs) # words_of []"
        by (subst words_of.simps) (simp only: Cons list.case t)
      ultimately show ?thesis
        using words_of_all_space [OF 1(2)] by (simp add: words_of_Nil)
    next
      case False
      then obtain y where y: "y \<in> set cs" "\<not> ?nw y" by blast
      have t: "takeWhile ?nw (cs @ b) = takeWhile ?nw cs"
          "dropWhile ?nw (cs @ b) = dropWhile ?nw cs @ b"
        using y by (rule takeWhile_append1, rule dropWhile_append1)
      have "words_of (s @ b) = (c # takeWhile ?nw cs) # words_of (dropWhile ?nw cs @ b)"
        by (subst words_of.simps) (simp only: dw list.case t)
      moreover have "words_of s = (c # takeWhile ?nw cs) # words_of (dropWhile ?nw cs)"
        by (subst words_of.simps) (simp only: Cons list.case)
      ultimately show ?thesis
        using IH by simp
    qed
  qed
qed

subsection \<open>Trimming and splitting\<close>

lemma trim_decomp:
  "dropWhile is_white_space t = trim t @ rev (takeWhile is_white_space (rev (dropWhile is_white_space t)))"
proof -
  let ?d = "dropWhile is_white_space t"
  have "rev (rev ?d) = rev (takeWhile is_white_space (rev ?d) @ dropWhile is_white_space (rev ?d))"
    by (simp only: takeWhile_dropWhile_id)
  then show ?thesis by (simp only: rev_rev_ident rev_append trim_def)
qed

lemma words_of_trim: "words_of (trim t) = words_of t"
proof -
  let ?b = "rev (takeWhile is_white_space (rev (dropWhile is_white_space t)))"
  have "\<forall>c \<in> set ?b. is_white_space c"
    by (auto dest: set_takeWhileD)
  then have "words_of (trim t @ ?b) = words_of (trim t)"
    by (rule words_of_append_space)
  then show ?thesis
    using trim_decomp [of t] words_of_dropWhile [of t] by simp
qed

lemma trim_ends:
  assumes "trim t \<noteq> []"
  shows "\<not> is_white_space (hd (trim t))" and "\<not> is_white_space (last (trim t))"
proof -
  let ?d = "dropWhile is_white_space t"
  have "trim t = []" if "?d = []"
    unfolding trim_def that by (simp only: rev.simps dropWhile.simps)
  then have d: "?d \<noteq> []" using assms by blast
  have "hd (trim t) = hd ?d"
    using assms trim_decomp [of t] by (metis hd_append2)
  then show "\<not> is_white_space (hd (trim t))"
    using d hd_dropWhile [of is_white_space t] by simp
  have r: "dropWhile is_white_space (rev ?d) \<noteq> []" using assms by (simp add: trim_def)
  have "last (trim t) = hd (dropWhile is_white_space (rev ?d))"
    using r by (simp add: trim_def last_rev)
  then show "\<not> is_white_space (last (trim t))"
    using r hd_dropWhile [of is_white_space "rev ?d"] by simp
qed

lemma split_ws_trim:
  assumes "words_of t \<noteq> []"
  shows "split_ws (trim t) = words_of t"
proof -
  have "trim t \<noteq> []"
    using assms words_of_trim [of t] by (auto simp: words_of_Nil)
  then have "split_scan False (trim t) = words_of (trim t)"
    using trim_ends [of t] by (intro split_scan_words_of)
  then show ?thesis by (simp add: split_ws_def words_of_trim)
qed

lemma reflection_many:
  assumes "12 < length (words_of t)"
  shows "reflection t
    = str ''You said: '' @ [0x22] @ join (str '' '') (take 12 (words_of t)) @ str ''...'' @ [0x22]"
proof -
  have ne: "words_of t \<noteq> []" using assms by auto
  then have "split_ws (trim t) = words_of t" by (rule split_ws_trim)
  then show ?thesis using assms ne by (simp add: reflection_def Let_def str_def)
qed

lemma reflection_few:
  assumes "1 \<le> length (words_of t)" "length (words_of t) \<le> 12"
  shows "reflection t = str ''You said: '' @ [0x22] @ join (str '' '') (words_of t) @ [0x22]"
proof -
  have ne: "words_of t \<noteq> []" using assms by auto
  then have "split_ws (trim t) = words_of t" by (rule split_ws_trim)
  then show ?thesis using assms ne by (simp add: reflection_def Let_def str_def)
qed

lemma trim_all_space:
  assumes "\<forall>c \<in> set s. is_white_space c"
  shows "trim s = []"
proof -
  have "dropWhile is_white_space s = []" using assms by simp
  then show ?thesis unfolding trim_def by (simp only: rev.simps dropWhile.simps)
qed

subsection \<open>Lower case\<close>

lemma lowers_ASCII_whole:
  assumes "lowers_ASCII lower" and "is_ASCII s"
  shows "lower s = map ascii_lower s"
proof -
  obtain x y where "lower ([] @ s @ []) = x @ map ascii_lower s @ y" "x = []" "y = []"
    using assms unfolding lowers_ASCII_def by blast
  then show ?thesis by simp
qed

lemma lowers_ASCII_sublist:
  assumes "lowers_ASCII lower" and "is_ASCII u" and "sublist u t"
  shows "sublist (map ascii_lower u) (lower t)"
proof -
  obtain a b where t: "t = a @ u @ b"
    using assms(3) by (auto simp: sublist_def)
  obtain x y where "lower (a @ u @ b) = x @ map ascii_lower u @ y"
    using assms(1,2) unfolding lowers_ASCII_def by blast
  then show ?thesis unfolding t sublist_def by blast
qed

lemma ascii_lower_ASCII: "ascii_lower c < 0x80 \<Longrightarrow> c < 0x80"
proof (cases "0x41 \<le> c \<and> c \<le> 0x5A")
  case True
  then have "c \<le> 0x5A" by simp
  moreover have "(0x5A :: code_unit) < 0x80" by simp
  ultimately show ?thesis by (rule order_le_less_trans)
next
  case False
  then show "ascii_lower c < 0x80 \<Longrightarrow> c < 0x80" by (simp add: ascii_lower_def)
qed

lemma is_ASCII_ascii_lower: "is_ASCII (map ascii_lower u) \<Longrightarrow> is_ASCII u"
  by (auto simp: is_ASCII_def intro: ascii_lower_ASCII)

lemma example_lower_ASCII: "is_ASCII u \<Longrightarrow> map example_lower u = map ascii_lower u"
  by (auto simp: is_ASCII_def example_lower_def)

lemma lowers_ASCII_example: "lowers_ASCII (toLowerCase example_runtime)"
  unfolding lowers_ASCII_def
proof (intro allI impI)
  fix a u b :: js_string
  assume u: "is_ASCII u"
  have "toLowerCase example_runtime (a @ u @ b)
      = map example_lower a @ map ascii_lower u @ map example_lower b"
    by (simp add: example_runtime_def example_lower_ASCII [OF u])
  then show "\<exists>x y. toLowerCase example_runtime (a @ u @ b) = x @ map ascii_lower u @ y
      \<and> (a = [] \<longrightarrow> x = []) \<and> (b = [] \<longrightarrow> y = [])"
    by (intro exI [of _ "map example_lower a"] exI [of _ "map example_lower b"]) simp
qed

lemma detectEmotion_classify: "detectEmotion rt t = classify (toLowerCase rt) t"
  unfolding detectEmotion_def classify_def keyword_sets_def Let_def
  by (simp add: some_set includes_str_sublist)

lemma detectEmotion_lowered:
  "toLowerCase rt t = s \<Longrightarrow> detectEmotion rt t = first_match s keyword_sets"
  by (simp add: detectEmotion_classify classify_def)

lemma detectEmotion_ASCII:
  assumes "lowers_ASCII (toLowerCase rt)" and "is_ASCII t" and "map ascii_lower t = s"
  shows "detectEmotion rt t = first_match s keyword_sets"
  using lowers_ASCII_whole [OF assms(1,2)] assms(3) by (simp add: detectEmotion_lowered)

subsection \<open>The reply and the handler\<close>

lemma pick_member:
  assumes "0 \<le> r" "r < 1" "v \<noteq> []"
  shows "\<exists>p \<in> set v. pick r v = Some p"
proof -
  let ?n = "length v"
  let ?i = "\<lfloor>r * real ?n\<rfloor>"
  have n: "0 < real ?n" using assms(3) by simp
  have "0 \<le> r * real ?n" using assms(1) by simp
  then have lo: "0 \<le> ?i" by simp
  have "r * real ?n < real ?n" using assms(2) n by simp
  then have hi: "?i < int ?n" by (simp add: floor_less_iff)
  with lo have "nat ?i < ?n" by linarith
  then have "v ! nat ?i \<in> set v" by simp
  moreover have "pick r v = Some (v ! nat ?i)" using lo hi by (simp add: pick_def Let_def)
  ultimately show ?thesis by blast
qed

lemma filter_Boolean_Some: "filter_Boolean (map Some ps) = filter (\<lambda>p. p \<noteq> []) ps"
  by (induction ps) simp_all

lemma reflection_not_Nil: "reflection t \<noteq> []"
  using split_scan_not_Nil [of False "trim t"]
  by (simp add: reflection_def Let_def split_ws_def str_def)

lemma VALIDATION_entries:
  "emotion \<in> set EmotionLabels \<Longrightarrow>
   map_of VALIDATION emotion \<noteq> None \<and> entry_or_neutral VALIDATION emotion \<noteq> [] \<and>
   [] \<notin> set (entry_or_neutral VALIDATION emotion)"
  by (auto simp: EmotionLabels_def VALIDATION_def entry_or_neutral_def em_dash_def str_def)

lemma SUGGESTIONS_entries:
  "emotion \<in> set EmotionLabels \<Longrightarrow>
   map_of SUGGESTIONS emotion \<noteq> None \<and> entry_or_neutral SUGGESTIONS emotion \<noteq> [] \<and>
   [] \<notin> set (entry_or_neutral SUGGESTIONS emotion)"
  by (auto simp: EmotionLabels_def SUGGESTIONS_def entry_or_neutral_def em_dash_def str_def)

lemma generateReply_pieces:
  assumes "emotion \<in> set EmotionLabels"
    and "0 \<le> rnd 0" "rnd 0 < 1" "0 \<le> rnd 1" "rnd 1 < 1"
  shows "\<exists>val \<in> set (entry_or_neutral VALIDATION emotion).
         \<exists>sug \<in> set (entry_or_neutral SUGGESTIONS emotion).
           generateReply rnd userText emotion
             = join (str '' '') (filter (\<lambda>p. p \<noteq> []) [val, reflection userText, sug])
         \<and> generateReply rnd userText emotion
             = val @ str '' '' @ reflection userText @ str '' '' @ sug"
proof -
  let ?v = "entry_or_neutral VALIDATION emotion"
  let ?s = "entry_or_neutral SUGGESTIONS emotion"
  obtain val where val: "val \<in> set ?v" "pick (rnd 0) ?v = Some val"
    using pick_member [OF assms(2,3)] VALIDATION_entries [OF assms(1)] by blast
  obtain sug where sug: "sug \<in> set ?s" "pick (rnd 1) ?s = Some sug"
    using pick_member [OF assms(4,5)] SUGGESTIONS_entries [OF assms(1)] by blast
  have ne: "val \<noteq> []" "sug \<noteq> []"
    using val(1) sug(1) VALIDATION_entries [OF assms(1)] SUGGESTIONS_entries [OF assms(1)]
    by auto
  have g: "generateReply rnd userText emotion
      = join (str '' '') (filter_Boolean (map Some [val, reflection userText, sug]))"
    using val(2) sug(2) by (simp add: generateReply_def Let_def)
  have "generateReply rnd userText emotion
      = join (str '' '') (filter (\<lambda>p. p \<noteq> []) [val, reflection userText, sug])"
    unfolding g filter_Boolean_Some ..
  moreover from this have "generateReply rnd userText emotion
      = val @ str '' '' @ reflection userText @ str '' '' @ sug"
    using ne reflection_not_Nil [of userText] by simp
  ultimately show ?thesis using val(1) sug(1) by blast
qed

lemma entry_or_neutral_fallback:
  "map_of table emotion = None \<Longrightarrow>
   entry_or_neutral table emotion = entry_or_neutral table (str ''neutral'')"
  by (simp add: entry_or_neutral_def split: option.splits)

lemma detectEmotion_label: "detectEmotion rt t \<in> set EmotionLabels"
  by (simp add: detectEmotion_def EmotionLabels_def Let_def)

lemma try_block_cases:
  "try_block rt rnd ev =
    (case JSON_parse (body_or_empty_object ev) of
       Inl e \<Rightarrow> Inl e
     | Inr data \<Rightarrow>
         (case text_of rt data of
            Inl e \<Rightarrow> Inl e
          | Inr text \<Rightarrow>
              (case sessionId_of rt data of
                 Inl e \<Rightarrow> Inl e
               | Inr sid \<Rightarrow>
                   if text = [] then Inr (no_text_response, 0)
                   else Inr (success_response (detectEmotion rt text)
                               (generateReply rnd text (detectEmotion rt text)), 2))))"
  by (simp add: try_block_def no_text_response_def success_response_def Let_def split: sum.splits)

lemma handler_malformed:
  "s \<noteq> [] \<Longrightarrow> handler rt rnd \<lparr>event.body = Some (Malformed s)\<rparr> = (server_error_response, 0)"
  by (simp add: handler_def try_block_cases body_or_empty_object_def server_error_response_def)

lemma handler_no_body:
  "event.body ev = None \<or> event.body ev = Some (Malformed []) \<Longrightarrow>
   handler rt rnd ev = (no_text_response, 0)"
  by (auto simp: handler_def try_block_cases body_or_empty_object_def text_of_def sessionId_of_def
      or_else_def trim_def)

lemma handler_no_text:
  assumes "JSON_parse (body_or_empty_object ev) = Inr data"
    and "text_of rt data = Inr []" and "sessionId_of rt data = Inr sid"
  shows "handler rt rnd ev = (no_text_response, 0)"
  using assms by (simp add: handler_def try_block_cases)

lemma handler_success:
  assumes "JSON_parse (body_or_empty_object ev) = Inr data"
    and "text_of rt data = Inr text" and "text \<noteq> []" and "sessionId_of rt data = Inr sid"
  shows "handler rt rnd ev =
     (success_response (detectEmotion rt text) (generateReply rnd text (detectEmotion rt text)), 2)"
  using assms by (simp add: handler_def try_block_cases)

lemma handler_json:
  "handler rt rnd \<lparr>event.body = Some (Json x)\<rparr> =
     (case text_of rt x of
        Inl e \<Rightarrow> (server_error_response, 0)
      | Inr text \<Rightarrow>
          (case sessionId_of rt x of
             Inl e \<Rightarrow> (server_error_response, 0)
           | Inr sid \<Rightarrow>
               if text = [] then (no_text_response, 0)
               else (success_response (detectEmotion rt text)
                       (generateReply rnd text (detectEmotion rt text)), 2)))"
  by (simp add: handler_def try_block_cases body_or_empty_object_def server_error_response_def
      split: sum.splits)

subsection \<open>Reading the request\<close>

lemma text_of_missing:
  "map_of ps (str ''text'') = None \<Longrightarrow> text_of rt (JObject ps) = Inr []"
  by (simp add: text_of_def or_else_def trim_def)

lemma text_of_string:
  "map_of ps (str ''text'') = Some (JString s) \<Longrightarrow> text_of rt (JObject ps) = Inr (trim s)"
  by (simp add: text_of_def or_else_def trim_def)

lemma text_of_falsy:
  "map_of ps (str ''text'') = Some x \<Longrightarrow> \<not> ToBoolean x \<Longrightarrow> text_of rt (JObject ps) = Inr []"
  by (simp add: text_of_def or_else_def trim_def)

lemma map_of_other_fields:
  "key \<noteq> k \<Longrightarrow> map_of (filter (\<lambda>p. fst p \<noteq> k) ps) key = map_of ps key"
  by (induction ps) auto

lemma text_of_cong:
  "map_of ps (str ''text'') = map_of qs (str ''text'') \<Longrightarrow>
   text_of rt (JObject ps) = text_of rt (JObject qs)"
  by (simp add: text_of_def)

lemma text_not_session_id: "str ''text'' \<noteq> str ''session_id''"
  by (simp add: str_def)

lemma sessionId_of_trap:
  "sessionId_of rt (JObject ((str ''session_id'', own_toString) # ps)) = Inl TypeError"
  by (simp add: sessionId_of_def or_else_def own_toString_def)

lemma isl_collect: "isl (collect rs) \<longleftrightarrow> (\<exists>r \<in> set rs. isl r)"
  by (induction rs rule: collect.induct) (auto split: sum.splits)

lemma isl_ToString: "isl (ToString rt x) \<longleftrightarrow> String_throws x"
proof (induction rt x rule: ToString.induct)
  case (6 rt xs)
  let ?f = "\<lambda>x. if x = JUndefined \<or> x = JNull then Inr [] else ToString rt x"
  have "isl (ToString rt (JArray xs)) \<longleftrightarrow> isl (collect (map ?f xs))"
    by (simp split: sum.splits)
  also have "\<dots> \<longleftrightarrow> (\<exists>x \<in> set xs. isl (?f x))"
    unfolding isl_collect set_map by blast
  also have "\<dots> \<longleftrightarrow> (\<exists>x \<in> set xs. String_throws x)"
    using 6 by (intro bex_cong refl) auto
  finally show ?case by simp
qed (auto split: option.splits)

lemma String_throws_truthy: "String_throws x \<Longrightarrow> ToBoolean x"
  by (cases x) auto

lemma isl_ToString_or_else:
  "\<not> String_throws d \<Longrightarrow> isl (ToString rt (or_else x d)) \<longleftrightarrow> String_throws x"
  using String_throws_truthy [of x] by (auto simp: or_else_def isl_ToString)

lemma Get_field:
  "Get data key = (if data = JNull \<or> data = JUndefined then Inl TypeError else Inr (field data key))"
  by (cases data) (simp_all add: field_def)

lemma isl_text_of:
  "isl (text_of rt data) \<longleftrightarrow>
     data = JNull \<or> data = JUndefined \<or> String_throws (field data (str ''text''))"
  using isl_ToString_or_else [of "JString []" rt "field data (str ''text'')"]
  by (auto simp: text_of_def Get_field split: sum.splits)

lemma isl_sessionId_of:
  "isl (sessionId_of rt data) \<longleftrightarrow>
     data = JNull \<or> data = JUndefined \<or> String_throws (field data (str ''session_id''))"
  using isl_ToString_or_else [of "JString (str ''default_session'')" rt "field data (str ''session_id'')"]
  by (auto simp: sessionId_of_def Get_field split: sum.splits)

section \<open>The claims\<close>

subsection \<open>The classifier\<close>

text \<open>
  Claim C2. \<open>detectEmotion\<close> is the classifier of the specification: on every text,
  with whatever lower-casing the runtime has, it returns the label that \<open>classify\<close>
  returns, that is the label of the first keyword set, in the order sad, happy, angry,
  anxious, love, surprised, with a keyword that is a substring of the lower-cased text,
  and \<open>neutral\<close> when no set has one. With a lower-casing that does to ASCII text what
  JavaScript's does, the seven test vectors of the specification hold, and so do vectors
  with capital letters: the text is lower-cased before the keywords are sought. A text
  with a Kelvin sign in place of the \<^verbatim>\<open>k\<close> of \<^verbatim>\<open>shocked\<close> is labelled surprised when
  the lower-casing turns it into \<^verbatim>\<open>shocked\<close>, as JavaScript's does. \<open>detectEmotion\<close>
  is a function of the text alone (it takes no random draw), so the same text always gets
  the same label.
\<close>

theorem detectEmotion_is_classify:
  "detectEmotion rt t = classify (toLowerCase rt) t
   \<and> (lowers_ASCII (toLowerCase rt) \<longrightarrow>
        detectEmotion rt (str ''I am so sad today'') = str ''sad''
      \<and> detectEmotion rt (str ''this is great news'') = str ''happy''
      \<and> detectEmotion rt (str ''I am furious'') = str ''angry''
      \<and> detectEmotion rt (str ''I feel nervous'') = str ''anxious''
      \<and> detectEmotion rt (str ''I love you'') = str ''love''
      \<and> detectEmotion rt (str ''I was shocked'') = str ''surprised''
      \<and> detectEmotion rt (str ''the sky is blue'') = str ''neutral''
      \<and> detectEmotion rt (str ''Not HAPPY at all'') = str ''happy''
      \<and> detectEmotion rt (str ''I Was SHOCKED'') = str ''surprised''
      \<and> detectEmotion rt (str ''LONELY and GLAD'') = str ''sad''
      \<and> detectEmotion rt (str ''The SKY is Blue'') = str ''neutral'')
   \<and> (toLowerCase rt (str ''shoc'' @ [0x212A] @ str ''ed'') = str ''shocked'' \<longrightarrow>
        detectEmotion rt (str ''shoc'' @ [0x212A] @ str ''ed'') = str ''surprised'')"
proof -
  have vector: "detectEmotion rt x = l"
    if "lowers_ASCII (toLowerCase rt)"
      and "is_ASCII x \<and> first_match (map ascii_lower x) keyword_sets = l" for x l
    using detectEmotion_ASCII [OF that(1), of x "map ascii_lower x"] that(2) by simp
  have "detectEmotion rt t = classify (toLowerCase rt) t"
    by (rule detectEmotion_classify)
  moreover have "detectEmotion rt (str ''I am so sad today'') = str ''sad''"
    if "lowers_ASCII (toLowerCase rt)"
    by (rule vector [OF that]) code_simp
  moreover have "detectEmotion rt (str ''this is great news'') = str ''happy''"
    if "lowers_ASCII (toLowerCase rt)"
    by (rule vector [OF that]) code_simp
  moreover have "detectEmotion rt (str ''I am furious'') = str ''angry''"
    if "lowers_ASCII (toLowerCase rt)"
    by (rule vector [OF that]) code_simp
  moreover have "detectEmotion rt (str ''I feel nervous'') = str ''anxious''"
    if "lowers_ASCII (toLowerCase rt)"
    by (rule vector [OF that]) code_simp
  moreover have "detectEmotion rt (str ''I love you'') = str ''love''"
    if "lowers_ASCII (toLowerCase rt)"
    by (rule vector [OF that]) code_simp
  moreover have "detectEmotion rt (str ''I was shocked'') = str ''surprised''"
    if "lowers_ASCII (toLowerCase rt)"
    by (rule vector [OF that]) code_simp
  moreover have "detectEmotion rt (str ''the sky is blue'') = str ''neutral''"
    if "lowers_ASCII (toLowerCase rt)"
    by (rule vector [OF that]) code_simp
  moreover have "detectEmotion rt (str ''Not HAPPY at all'') = str ''happy''"
    if "lowers_ASCII (toLowerCase rt)"
    by (rule vector [OF that]) code_simp
  moreover have "detectEmotion rt (str ''I Was SHOCKED'') = str ''surprised''"
    if "lowers_ASCII (toLowerCase rt)"
    by (rule vector [OF that]) code_simp
  moreover have "detectEmotion rt (str ''LONELY and GLAD'') = str ''sad''"
    if "lowers_ASCII (toLowerCase rt)"
    by (rule vector [OF that]) code_simp
  moreover have "detectEmotion rt (str ''The SKY is Blue'') = str ''neutral''"
    if "lowers_ASCII (toLowerCase rt)"
    by (rule vector [OF that]) code_simp
  moreover have "detectEmotion rt (str ''shoc'' @ [0x212A] @ str ''ed'') = str ''surprised''"
    if "toLowerCase rt (str ''shoc'' @ [0x212A] @ str ''ed'') = str ''shocked''"
  proof -
    have "first_match (str ''shocked'') keyword_sets = str ''surprised''" by code_simp
    then show ?thesis using detectEmotion_lowered [OF that] by simp
  qed
  ultimately show ?thesis by blast
qed

text \<open>
  The example runtime lower-cases ASCII as JavaScript does; with it the reference
  classifier gives the labels of a text in capitals and of the text with the Kelvin sign.
\<close>

theorem detectEmotion_is_classify_witness:
  "lowers_ASCII (toLowerCase example_runtime)
   \<and> classify (toLowerCase example_runtime) (str ''Not HAPPY at all'') = str ''happy''
   \<and> detectEmotion example_runtime (str ''I am so sad today'') = str ''sad''
   \<and> toLowerCase example_runtime (str ''shoc'' @ [0x212A] @ str ''ed'') = str ''shocked''
   \<and> classify (toLowerCase example_runtime) (str ''shoc'' @ [0x212A] @ str ''ed'') = str ''surprised''"
proof -
  have k: "toLowerCase example_runtime (str ''shoc'' @ [0x212A] @ str ''ed'') = str ''shocked''"
    by code_simp
  show ?thesis
    using lowers_ASCII_example k
      detectEmotion_is_classify [of example_runtime "str ''Not HAPPY at all''"]
      detectEmotion_is_classify [of example_runtime "str ''shoc'' @ [0x212A] @ str ''ed''"]
    by simp
qed

text \<open>
  Claim C7. A text that contains a sad keyword and a happy keyword, each in any mixture
  of capital and small letters, is classified as sad: if a substring of the text is a sad
  keyword but for the case of its letters, and another is a happy keyword but for the
  case of its letters, \<open>detectEmotion\<close> returns \<open>sad\<close>. The runtime's lower-casing is
  any that does to ASCII text what JavaScript's does.
\<close>

theorem sad_before_happy:
  assumes "lowers_ASCII (toLowerCase rt)"
    and "sublist u t"
    and "map ascii_lower u
          \<in> {str ''sad'', str ''unhappy'', str ''depressed'', str ''cry'', str ''lonely''}"
    and "sublist u' t"
    and "map ascii_lower u'
          \<in> {str ''happy'', str ''glad'', str ''awesome'', str ''great'', str ''joy''}"
  shows "detectEmotion rt t = str ''sad''"
proof -
  have "is_ASCII (map ascii_lower u)"
    using assms(3) by (auto simp: is_ASCII_def str_def)
  then have "is_ASCII u" by (rule is_ASCII_ascii_lower)
  then have "sublist (map ascii_lower u) (toLowerCase rt t)"
    using assms(1,2) by (intro lowers_ASCII_sublist)
  then have "some (\<lambda>w. includes_str (toLowerCase rt t) w)
      [str ''sad'', str ''unhappy'', str ''depressed'', str ''cry'', str ''lonely'']"
    using assms(3) unfolding some_set includes_str_sublist by auto
  then show ?thesis by (simp add: detectEmotion_def Let_def)
qed

text \<open>
  The example of the specification with the keywords in capitals, \<^verbatim>\<open>I am SAD but Glad\<close>:
  without the lower-casing neither keyword would be found.
\<close>

theorem sad_before_happy_witness:
  "lowers_ASCII (toLowerCase example_runtime)
   \<and> sublist (str ''SAD'') (str ''I am SAD but Glad'')
   \<and> map ascii_lower (str ''SAD'') = str ''sad''
   \<and> sublist (str ''Glad'') (str ''I am SAD but Glad'')
   \<and> map ascii_lower (str ''Glad'') = str ''glad''
   \<and> \<not> includes_str (str ''I am SAD but Glad'') (str ''sad'')
   \<and> \<not> includes_str (str ''I am SAD but Glad'') (str ''glad'')
   \<and> detectEmotion example_runtime (str ''I am SAD but Glad'') = str ''sad''"
proof -
  have 1: "sublist (str ''SAD'') (str ''I am SAD but Glad'')" by code_simp
  have 2: "map ascii_lower (str ''SAD'') = str ''sad''" by code_simp
  have 3: "sublist (str ''Glad'') (str ''I am SAD but Glad'')" by code_simp
  have 4: "map ascii_lower (str ''Glad'') = str ''glad''" by code_simp
  have 5: "\<not> includes_str (str ''I am SAD but Glad'') (str ''sad'')" by code_simp
  have 6: "\<not> includes_str (str ''I am SAD but Glad'') (str ''glad'')" by code_simp
  show ?thesis
    using 1 2 3 4 5 6 lowers_ASCII_example
      sad_before_happy [of example_runtime "str ''SAD''" "str ''I am SAD but Glad''" "str ''Glad''"]
    by simp
qed

subsection \<open>The reply\<close>

text \<open>
  Claim C5. The reflection clause of \<open>generateReply\<close>, with the words of the input
  taken as its maximal runs of characters that are not white space (\<open>words_of\<close>): an
  input of more than twelve words gives \<^verbatim>\<open>You said: "\<close>, the first twelve words joined
  by single spaces, three dots and the closing quote; an input of one to twelve words
  gives all its words joined by single spaces between the quotes, without dots. For an
  input with at least one word, splitting the trimmed input on runs of white space, as
  the code does, yields exactly these words. A fifteen-word input reflects its first
  twelve words followed by the dots, a five-word input all five words.
\<close>

theorem reflection_clause:
  \<open>(12 < length (words_of userText) \<longrightarrow>
      reflection userText
        = str ''You said: "'' @ join (str '' '') (take 12 (words_of userText)) @ str ''..."'')
   \<and> (1 \<le> length (words_of userText) \<and> length (words_of userText) \<le> 12 \<longrightarrow>
      reflection userText = str ''You said: "'' @ join (str '' '') (words_of userText) @ str ''"'')
   \<and> (1 \<le> length (words_of userText) \<longrightarrow> split_ws (trim userText) = words_of userText)
   \<and> reflection (str ''one two three four five six seven eight nine ten eleven twelve thirteen fourteen fifteen'')
        = str ''You said: "one two three four five six seven eight nine ten eleven twelve..."''
   \<and> reflection (str ''I feel so very happy'') = str ''You said: "I feel so very happy"''\<close>
proof -
  have \<open>reflection userText
        = str ''You said: "'' @ join (str '' '') (take 12 (words_of userText)) @ str ''..."''\<close>
    if "12 < length (words_of userText)"
    using reflection_many [OF that] by (simp add: str_def)
  moreover have \<open>reflection userText
        = str ''You said: "'' @ join (str '' '') (words_of userText) @ str ''"''\<close>
    if "1 \<le> length (words_of userText)" "length (words_of userText) \<le> 12"
    using reflection_few [OF that] by (simp add: str_def)
  moreover have "split_ws (trim userText) = words_of userText"
    if "1 \<le> length (words_of userText)"
  proof -
    have "words_of userText \<noteq> []" using that by auto
    then show ?thesis by (rule split_ws_trim)
  qed
  moreover have \<open>reflection (str ''one two three four five six seven eight nine ten eleven twelve thirteen fourteen fifteen'')
        = str ''You said: "one two three four five six seven eight nine ten eleven twelve..."''\<close>
    by code_simp
  moreover have \<open>reflection (str ''I feel so very happy'') = str ''You said: "I feel so very happy"''\<close>
    by code_simp
  ultimately show ?thesis by blast
qed

text \<open>
  Thirteen words separated by no-break spaces (U+00A0), with a line separator (U+2028) in
  front; and three words with every white space code unit between the first two and a
  byte order mark at the end, the second word being the three code units that look like
  white space and are none.
\<close>

theorem reflection_clause_witness:
  \<open>length (words_of ([0x2028] @ str ''a'' @ [0xA0] @ str ''b'' @ [0xA0] @ str ''c'' @ [0xA0] @ str ''d''
      @ [0xA0] @ str ''e'' @ [0xA0] @ str ''f'' @ [0xA0] @ str ''g'' @ [0xA0] @ str ''h'' @ [0xA0] @ str ''i''
      @ [0xA0] @ str ''j'' @ [0xA0] @ str ''k'' @ [0xA0] @ str ''l'' @ [0xA0] @ str ''m'')) = 13
   \<and> reflection ([0x2028] @ str ''a'' @ [0xA0] @ str ''b'' @ [0xA0] @ str ''c'' @ [0xA0] @ str ''d''
      @ [0xA0] @ str ''e'' @ [0xA0] @ str ''f'' @ [0xA0] @ str ''g'' @ [0xA0] @ str ''h'' @ [0xA0] @ str ''i''
      @ [0xA0] @ str ''j'' @ [0xA0] @ str ''k'' @ [0xA0] @ str ''l'' @ [0xA0] @ str ''m'')
       = str ''You said: "a b c d e f g h i j k l..."''
   \<and> length (words_of (str ''so'' @ all_white_space @ no_white_space @ [0x3000] @ str ''today'' @ [0xFEFF])) = 3
   \<and> reflection (str ''so'' @ all_white_space @ no_white_space @ [0x3000] @ str ''today'' @ [0xFEFF])
       = str ''You said: "so '' @ no_white_space @ str '' today"''
   \<and> split_ws (trim (str ''so'' @ all_white_space @ no_white_space @ [0x3000] @ str ''today'' @ [0xFEFF]))
       = [str ''so'', no_white_space, str ''today'']\<close>
proof -
  let ?a = "[0x2028] @ str ''a'' @ [0xA0] @ str ''b'' @ [0xA0] @ str ''c'' @ [0xA0] @ str ''d''
      @ [0xA0] @ str ''e'' @ [0xA0] @ str ''f'' @ [0xA0] @ str ''g'' @ [0xA0] @ str ''h'' @ [0xA0] @ str ''i''
      @ [0xA0] @ str ''j'' @ [0xA0] @ str ''k'' @ [0xA0] @ str ''l'' @ [0xA0] @ str ''m''"
  let ?b = "str ''so'' @ all_white_space @ no_white_space @ [0x3000] @ str ''today'' @ [0xFEFF]"
  have a: "words_of ?a
      = [str ''a'', str ''b'', str ''c'', str ''d'', str ''e'', str ''f'', str ''g'', str ''h'',
         str ''i'', str ''j'', str ''k'', str ''l'', str ''m'']"
    by code_simp
  have a': \<open>str ''You said: "'' @ join (str '' '') (take 12 (words_of ?a)) @ str ''..."''
      = str ''You said: "a b c d e f g h i j k l..."''\<close>
    unfolding a by (simp add: str_def)
  have b: "words_of ?b = [str ''so'', no_white_space, str ''today'']"
    by code_simp
  have b': \<open>str ''You said: "'' @ join (str '' '') (words_of ?b) @ str ''"''
      = str ''You said: "so '' @ no_white_space @ str '' today"''\<close>
    unfolding b by (simp add: str_def)
  have la: "length (words_of ?a) = 13" and lb: "length (words_of ?b) = 3"
    unfolding a b by simp_all
  show ?thesis
    using reflection_clause [of ?a] reflection_clause [of ?b] la lb a' b' b
    by simp
qed

text \<open>
  Claim C6. For every text, every emotion label and every two draws of
  \<^verbatim>\<open>Math.random\<close> (numbers from 0 up to, not including, 1), the reply is a phrase of
  the label's validation list, the reflection clause and a phrase of the label's
  suggestion list, joined by single spaces with empty pieces left out; none of the three
  is empty, so the reply is the three pieces with one space between neighbours. The list
  of a table for a key without an entry is the table's \<open>neutral\<close> list; each of the
  seven labels has an entry in both tables.
\<close>

theorem generateReply_composition:
  assumes "emotion \<in> set EmotionLabels"
    and "0 \<le> rnd 0" and "rnd 0 < 1" and "0 \<le> rnd 1" and "rnd 1 < 1"
  shows "(\<exists>val \<in> set (entry_or_neutral VALIDATION emotion).
          \<exists>sug \<in> set (entry_or_neutral SUGGESTIONS emotion).
            generateReply rnd userText emotion
              = join (str '' '') (filter (\<lambda>p. p \<noteq> []) [val, reflection userText, sug])
          \<and> generateReply rnd userText emotion
              = val @ str '' '' @ reflection userText @ str '' '' @ sug)
         \<and> (\<forall>table key. map_of table key = None \<longrightarrow>
               entry_or_neutral table key = entry_or_neutral table (str ''neutral''))
         \<and> map_of VALIDATION emotion = Some (entry_or_neutral VALIDATION emotion)
         \<and> map_of SUGGESTIONS emotion = Some (entry_or_neutral SUGGESTIONS emotion)"
proof -
  have "map_of VALIDATION emotion = Some (entry_or_neutral VALIDATION emotion)"
    using VALIDATION_entries [OF assms(1)] by (auto simp: entry_or_neutral_def)
  moreover have "map_of SUGGESTIONS emotion = Some (entry_or_neutral SUGGESTIONS emotion)"
    using SUGGESTIONS_entries [OF assms(1)] by (auto simp: entry_or_neutral_def)
  ultimately show ?thesis
    using generateReply_pieces [OF assms, of userText] entry_or_neutral_fallback by blast
qed

text \<open>
  The label \<open>surprised\<close> with both draws one half, which select the second phrase of
  each list; and a key without an entry, which gets the neutral list.
\<close>

theorem generateReply_composition_witness:
  \<open>str ''surprised'' \<in> set EmotionLabels
   \<and> 0 \<le> always (1/2) 0 \<and> always (1/2) 0 < 1 \<and> 0 \<le> always (1/2) 1 \<and> always (1/2) 1 < 1
   \<and> (\<exists>val \<in> set (entry_or_neutral VALIDATION (str ''surprised'')).
       \<exists>sug \<in> set (entry_or_neutral SUGGESTIONS (str ''surprised'')).
         generateReply (always (1/2)) (str ''I was shocked'') (str ''surprised'')
           = val @ str '' '' @ reflection (str ''I was shocked'') @ str '' '' @ sug)
   \<and> generateReply (always (1/2)) (str ''I was shocked'') (str ''surprised'')
       = str ''That must have been unexpected. You said: "I was shocked" If it's good''
          @ em_dash @ str ''congrats! If not, I'm here.''
   \<and> map_of VALIDATION (str ''bored'') = None
   \<and> entry_or_neutral VALIDATION (str ''bored'')
       = [str ''I'm here and listening.'', str ''Thanks for sharing.'']\<close>
proof -
  have 1: "str ''surprised'' \<in> set EmotionLabels" by (simp add: EmotionLabels_def)
  have 2: "0 \<le> always (1/2) 0" "always (1/2) 0 < 1" "0 \<le> always (1/2) 1" "always (1/2) 1 < 1"
    by (simp_all add: always_def)
  have r: \<open>reflection (str ''I was shocked'') = str ''You said: "I was shocked"''\<close> by code_simp
  have picks:
    "pick (always (1/2) 0) (entry_or_neutral VALIDATION (str ''surprised''))
       = Some (str ''That must have been unexpected.'')"
    "pick (always (1/2) 1) (entry_or_neutral SUGGESTIONS (str ''surprised''))
       = Some (str ''If it's good'' @ em_dash @ str ''congrats! If not, I'm here.'')"
    by (simp_all add: entry_or_neutral_def VALIDATION_def SUGGESTIONS_def pick_def always_def
        str_def)
  have g: \<open>generateReply (always (1/2)) (str ''I was shocked'') (str ''surprised'')
       = str ''That must have been unexpected. You said: "I was shocked" If it's good''
          @ em_dash @ str ''congrats! If not, I'm here.''\<close>
    unfolding generateReply_def Let_def picks r by (simp add: str_def em_dash_def)
  have n: "map_of VALIDATION (str ''bored'') = None"
    by (simp add: VALIDATION_def str_def)
  have e: "entry_or_neutral VALIDATION (str ''neutral'')
      = [str ''I'm here and listening.'', str ''Thanks for sharing.'']"
    by (simp add: entry_or_neutral_def VALIDATION_def str_def)
  have "\<exists>val \<in> set (entry_or_neutral VALIDATION (str ''surprised'')).
       \<exists>sug \<in> set (entry_or_neutral SUGGESTIONS (str ''surprised'')).
         generateReply (always (1/2)) (str ''I was shocked'') (str ''surprised'')
           = val @ str '' '' @ reflection (str ''I was shocked'') @ str '' '' @ sug"
    and "entry_or_neutral VALIDATION (str ''bored'') = entry_or_neutral VALIDATION (str ''neutral'')"
    using generateReply_composition [OF 1 2, of "str ''I was shocked''"] n by blast+
  then show ?thesis using 1 2 g n e by simp
qed

subsection \<open>The handler\<close>

text \<open>
  Claim C1, as the code has it. A body that is a non-empty string and not valid JSON is
  not treated as an empty body: \<^verbatim>\<open>JSON.parse\<close> throws, the \<^verbatim>\<open>catch\<close> block
  answers, and the response is status 500 with body \<^verbatim>\<open>{"error": "Server error."}\<close>.
  The empty body is answered with status 400 and \<^verbatim>\<open>{"error": "No text provided."}\<close>.
\<close>

theorem malformed_body_is_server_error:
  "s \<noteq> [] \<Longrightarrow>
   JSON_parse (Malformed s) = Inl SyntaxError
   \<and> handler rt rnd \<lparr>event.body = Some (Malformed s)\<rparr> = (server_error_response, 0)
   \<and> handler rt rnd \<lparr>event.body = Some (Malformed [])\<rparr> = (no_text_response, 0)"
  using handler_malformed [of s rt rnd]
    handler_no_body [of "\<lparr>event.body = Some (Malformed [])\<rparr>" rt rnd]
  by simp

text \<open>The body \<^verbatim>\<open>not json\<close> of the specification.\<close>

theorem malformed_body_is_server_error_witness:
  "str ''not json'' \<noteq> []
   \<and> handler example_runtime (always 0) \<lparr>event.body = Some (Malformed (str ''not json''))\<rparr>
       = (server_error_response, 0)"
  using malformed_body_is_server_error [of "str ''not json''" example_runtime "always 0"]
  by (simp add: str_def)

text \<open>
  The claim as the specification words it fails at the body \<^verbatim>\<open>not json\<close>: the status
  is 500, the response is not the one for missing text, and it differs from the response
  to an empty body.
\<close>

theorem malformed_body_counterexample:
  "str ''not json'' \<noteq> []
   \<and> JSON_parse (Malformed (str ''not json'')) = Inl SyntaxError
   \<and> statusCode (fst (handler example_runtime (always 0)
        \<lparr>event.body = Some (Malformed (str ''not json''))\<rparr>)) = 500
   \<and> fst (handler example_runtime (always 0) \<lparr>event.body = Some (Malformed (str ''not json''))\<rparr>)
       \<noteq> no_text_response
   \<and> handler example_runtime (always 0) \<lparr>event.body = Some (Malformed (str ''not json''))\<rparr>
       \<noteq> handler example_runtime (always 0) \<lparr>event.body = Some (Malformed [])\<rparr>"
proof -
  have ne: "str ''not json'' \<noteq> []" by (simp add: str_def)
  show ?thesis
    using ne handler_malformed [OF ne, of example_runtime "always 0"]
      handler_no_body [of "\<lparr>event.body = Some (Malformed [])\<rparr>" example_runtime "always 0"]
    by (simp add: server_error_response_def no_text_response_def)
qed

text \<open>
  Claim C3, as the code has it. Line 5 converts \<^verbatim>\<open>session_id\<close> to a string before
  line 6 tests the text, so the claim needs that this conversion does not throw. When the
  body is absent, empty or valid JSON, the extracted text is empty (the field is missing,
  empty or white space only) and \<^verbatim>\<open>String(data.session_id || 'default_session')\<close>
  returns a string, the handler returns status 400 with body
  \<^verbatim>\<open>{"error": "No text provided."}\<close> and has not called \<^verbatim>\<open>Math.random\<close>: no reply
  was composed. A body without a \<^verbatim>\<open>text\<close> field and a body whose \<^verbatim>\<open>text\<close> is a
  string of white space have the empty extracted text.
\<close>

theorem no_text_is_client_error:
  assumes "JSON_parse (body_or_empty_object ev) = Inr data"
    and "text_of rt data = Inr []"
    and "sessionId_of rt data = Inr sid"
  shows "handler rt rnd ev = (no_text_response, 0)
     \<and> (\<forall>ps. map_of ps (str ''text'') = None \<longrightarrow> text_of rt (JObject ps) = Inr [])
     \<and> (\<forall>ps s. map_of ps (str ''text'') = Some (JString s) \<and> (\<forall>c \<in> set s. is_white_space c)
           \<longrightarrow> text_of rt (JObject ps) = Inr [])"
  using handler_no_text [OF assms] text_of_missing text_of_string trim_all_space
  by auto

text \<open>
  A body whose \<^verbatim>\<open>text\<close> is made of every white space code unit once (\<open>all_white_space\<close>),
  with \<^verbatim>\<open>session_id\<close> \<^verbatim>\<open>s1\<close>; and a body without a \<^verbatim>\<open>text\<close> field.
\<close>

theorem no_text_is_client_error_witness:
  "JSON_parse (body_or_empty_object \<lparr>event.body = Some (Json (JObject
       [(str ''text'', JString all_white_space), (str ''session_id'', JString (str ''s1''))]))\<rparr>)
     = Inr (JObject
       [(str ''text'', JString all_white_space), (str ''session_id'', JString (str ''s1''))])
   \<and> text_of example_runtime (JObject
       [(str ''text'', JString all_white_space), (str ''session_id'', JString (str ''s1''))])
       = Inr []
   \<and> sessionId_of example_runtime (JObject
       [(str ''text'', JString all_white_space), (str ''session_id'', JString (str ''s1''))])
       = Inr (str ''s1'')
   \<and> handler example_runtime (always 0) \<lparr>event.body = Some (Json (JObject
       [(str ''text'', JString all_white_space), (str ''session_id'', JString (str ''s1''))]))\<rparr>
       = (no_text_response, 0)
   \<and> text_of example_runtime (JObject [(str ''session_id'', JString (str ''s1''))]) = Inr []"
proof -
  let ?data = "JObject
       [(str ''text'', JString all_white_space), (str ''session_id'', JString (str ''s1''))]"
  let ?ev = "\<lparr>event.body = Some (Json ?data)\<rparr>"
  have 1: "JSON_parse (body_or_empty_object ?ev) = Inr ?data"
    by (simp add: body_or_empty_object_def)
  have t: "trim all_white_space = []" by code_simp
  have n: "all_white_space \<noteq> []" by (simp add: all_white_space_def)
  have 2: "text_of example_runtime ?data = Inr []"
    using n by (simp add: text_of_def or_else_def t)
  have 3: "sessionId_of example_runtime ?data = Inr (str ''s1'')"
    by (simp add: sessionId_of_def or_else_def str_def)
  have 4: "text_of example_runtime (JObject [(str ''session_id'', JString (str ''s1''))]) = Inr []"
    by (simp add: text_of_missing str_def)
  show ?thesis
    using 1 2 3 4 no_text_is_client_error [OF 1 2 3, of "always 0"] by simp
qed

text \<open>
  The claim as the specification words it fails at the body
  \<^verbatim>\<open>{"session_id": {"toString": 1}}\<close>: the text is missing, and the status is 500.
\<close>

theorem no_text_counterexample:
  "JSON_parse (body_or_empty_object
      \<lparr>event.body = Some (Json (JObject [(str ''session_id'', own_toString)]))\<rparr>)
     = Inr (JObject [(str ''session_id'', own_toString)])
   \<and> text_of example_runtime (JObject [(str ''session_id'', own_toString)]) = Inr []
   \<and> statusCode (fst (handler example_runtime (always 0)
        \<lparr>event.body = Some (Json (JObject [(str ''session_id'', own_toString)]))\<rparr>)) = 500"
proof -
  have "text_of example_runtime (JObject [(str ''session_id'', own_toString)]) = Inr []"
    by (simp add: text_of_missing str_def)
  then show ?thesis
    by (simp add: handler_json body_or_empty_object_def sessionId_of_trap server_error_response_def)
qed

text \<open>
  Claim C4, as the code has it. When the body is valid JSON, the trimmed text is a
  non-empty string and \<^verbatim>\<open>String(data.session_id || 'default_session')\<close> returns a
  string, the handler returns status 200, the header
  \<^verbatim>\<open>Content-Type: application/json\<close> and a body with exactly the fields
  \<^verbatim>\<open>emotion\<close>, \<^verbatim>\<open>scores\<close>, \<^verbatim>\<open>reply\<close> and \<^verbatim>\<open>history\<close>, in this order:
  \<^verbatim>\<open>emotion\<close> is the label of the text, one of the seven labels, \<^verbatim>\<open>scores\<close> is the
  empty object, \<^verbatim>\<open>reply\<close> is the composed reply, and \<^verbatim>\<open>history\<close> is the empty
  array. \<^verbatim>\<open>Math.random\<close> has been called twice.
\<close>

theorem text_is_success:
  assumes "JSON_parse (body_or_empty_object ev) = Inr data"
    and "text_of rt data = Inr text"
    and "text \<noteq> []"
    and "sessionId_of rt data = Inr sid"
  shows "handler rt rnd ev =
     (\<lparr>statusCode = 200,
       headers = Some [(str ''Content-Type'', str ''application/json'')],
       body = JSON_stringify (JObject
         [(str ''emotion'', JString (detectEmotion rt text)),
          (str ''scores'', JObject []),
          (str ''reply'', JString (generateReply rnd text (detectEmotion rt text))),
          (str ''history'', JArray [])])\<rparr>, 2)
     \<and> detectEmotion rt text \<in> set EmotionLabels"
  using handler_success [OF assms, of rnd] detectEmotion_label [of rt "text"]
  by (simp add: success_response_def)

text \<open>
  The body whose \<^verbatim>\<open>text\<close> is \<^verbatim>\<open>I was SHOCKED\<close> between a no-break space and a
  space, with both draws one half.
\<close>

theorem text_is_success_witness:
  \<open>JSON_parse (body_or_empty_object \<lparr>event.body = Some (Json (JObject
       [(str ''text'', JString (0xA0 # str ''I was SHOCKED ''))]))\<rparr>)
     = Inr (JObject [(str ''text'', JString (0xA0 # str ''I was SHOCKED ''))])
   \<and> text_of example_runtime (JObject [(str ''text'', JString (0xA0 # str ''I was SHOCKED ''))])
       = Inr (str ''I was SHOCKED'')
   \<and> str ''I was SHOCKED'' \<noteq> []
   \<and> sessionId_of example_runtime (JObject [(str ''text'', JString (0xA0 # str ''I was SHOCKED ''))])
       = Inr (str ''default_session'')
   \<and> handler example_runtime (always (1/2)) \<lparr>event.body = Some (Json (JObject
       [(str ''text'', JString (0xA0 # str ''I was SHOCKED ''))]))\<rparr> =
     (\<lparr>statusCode = 200,
       headers = Some [(str ''Content-Type'', str ''application/json'')],
       body = JSON_stringify (JObject
         [(str ''emotion'', JString (str ''surprised'')),
          (str ''scores'', JObject []),
          (str ''reply'', JString
             (str ''That must have been unexpected. You said: "I was SHOCKED" If it's good''
              @ em_dash @ str ''congrats! If not, I'm here.'')),
          (str ''history'', JArray [])])\<rparr>, 2)\<close>
proof -
  let ?data = "JObject [(str ''text'', JString (0xA0 # str ''I was SHOCKED ''))]"
  let ?ev = "\<lparr>event.body = Some (Json ?data)\<rparr>"
  have 1: "JSON_parse (body_or_empty_object ?ev) = Inr ?data"
    by (simp add: body_or_empty_object_def)
  have t: "trim (0xA0 # str ''I was SHOCKED '') = str ''I was SHOCKED''" by code_simp
  have 2: "text_of example_runtime ?data = Inr (str ''I was SHOCKED'')"
    by (simp add: text_of_def or_else_def t)
  have 3: "str ''I was SHOCKED'' \<noteq> []" by (simp add: str_def)
  have 4: "sessionId_of example_runtime ?data = Inr (str ''default_session'')"
    by (simp add: sessionId_of_def or_else_def str_def)
  have e: "detectEmotion example_runtime (str ''I was SHOCKED'') = str ''surprised''" by code_simp
  have r: \<open>reflection (str ''I was SHOCKED'') = str ''You said: "I was SHOCKED"''\<close> by code_simp
  have picks:
    "pick (always (1/2) 0) (entry_or_neutral VALIDATION (str ''surprised''))
       = Some (str ''That must have been unexpected.'')"
    "pick (always (1/2) 1) (entry_or_neutral SUGGESTIONS (str ''surprised''))
       = Some (str ''If it's good'' @ em_dash @ str ''congrats! If not, I'm here.'')"
    by (simp_all add: entry_or_neutral_def VALIDATION_def SUGGESTIONS_def pick_def always_def
        str_def)
  have g: \<open>generateReply (always (1/2)) (str ''I was SHOCKED'') (str ''surprised'') =
      str ''That must have been unexpected. You said: "I was SHOCKED" If it's good''
        @ em_dash @ str ''congrats! If not, I'm here.''\<close>
    unfolding generateReply_def Let_def picks r by (simp add: str_def em_dash_def)
  show ?thesis
    using 1 2 3 4 text_is_success [OF 1 2 3 4, of "always (1/2)"] unfolding e g by simp
qed

text \<open>
  The claim as the specification words it fails at the body
  \<^verbatim>\<open>{"session_id": {"toString": 1}, "text": "hi"}\<close>: the trimmed text is \<^verbatim>\<open>hi\<close>, and
  the status is 500.
\<close>

theorem text_is_success_counterexample:
  "JSON_parse (body_or_empty_object \<lparr>event.body = Some (Json (JObject
       [(str ''session_id'', own_toString), (str ''text'', JString (str ''hi''))]))\<rparr>)
     = Inr (JObject [(str ''session_id'', own_toString), (str ''text'', JString (str ''hi''))])
   \<and> text_of example_runtime (JObject
       [(str ''session_id'', own_toString), (str ''text'', JString (str ''hi''))]) = Inr (str ''hi'')
   \<and> statusCode (fst (handler example_runtime (always 0) \<lparr>event.body = Some (Json (JObject
       [(str ''session_id'', own_toString), (str ''text'', JString (str ''hi''))]))\<rparr>)) = 500"
proof -
  have t: "trim (str ''hi'') = str ''hi''" by code_simp
  have "text_of example_runtime (JObject
       [(str ''session_id'', own_toString), (str ''text'', JString (str ''hi''))]) = Inr (str ''hi'')"
    using text_of_string [of "[(str ''session_id'', own_toString), (str ''text'', JString (str ''hi''))]"
        "str ''hi''" example_runtime]
    by (simp add: t text_not_session_id)
  then show ?thesis
    by (simp add: handler_json body_or_empty_object_def sessionId_of_trap server_error_response_def)
qed

text \<open>
  Claim C10, as the code has it. When the body is a JSON object whose \<^verbatim>\<open>text\<close> field
  is the number 0, \<^verbatim>\<open>false\<close> or \<^verbatim>\<open>null\<close>, and
  \<^verbatim>\<open>String(data.session_id || 'default_session')\<close> returns a string, the handler
  treats the text as missing: status 400 with body \<^verbatim>\<open>{"error": "No text provided."}\<close>.
  The falsy value is replaced by the empty string before the conversion, so it is never
  turned into \<^verbatim>\<open>0\<close>, \<^verbatim>\<open>false\<close> or \<^verbatim>\<open>null\<close> as text.
\<close>

theorem falsy_text_is_client_error:
  assumes "map_of ps (str ''text'') = Some x"
    and "x = JNumber (Finite 0) \<or> x = JBool False \<or> x = JNull"
    and "sessionId_of rt (JObject ps) = Inr sid"
  shows "handler rt rnd \<lparr>event.body = Some (Json (JObject ps))\<rparr> = (no_text_response, 0)"
proof -
  have "\<not> ToBoolean x" using assms(2) by auto
  then have "text_of rt (JObject ps) = Inr []" using assms(1) by (simp add: text_of_falsy)
  then show ?thesis using assms(3) by (simp add: handler_json)
qed

text \<open>The bodies \<^verbatim>\<open>{"text": 0}\<close>, \<^verbatim>\<open>{"text": false}\<close> and \<^verbatim>\<open>{"text": null}\<close>.\<close>

theorem falsy_text_is_client_error_witness:
  "map_of [(str ''text'', JNumber (Finite 0))] (str ''text'') = Some (JNumber (Finite 0))
   \<and> sessionId_of example_runtime (JObject [(str ''text'', JNumber (Finite 0))])
       = Inr (str ''default_session'')
   \<and> handler example_runtime (always 0)
        \<lparr>event.body = Some (Json (JObject [(str ''text'', JNumber (Finite 0))]))\<rparr>
       = (no_text_response, 0)
   \<and> handler example_runtime (always 0)
        \<lparr>event.body = Some (Json (JObject [(str ''text'', JBool False)]))\<rparr>
       = (no_text_response, 0)
   \<and> handler example_runtime (always 0)
        \<lparr>event.body = Some (Json (JObject [(str ''text'', JNull)]))\<rparr>
       = (no_text_response, 0)"
proof -
  have s: "sessionId_of example_runtime (JObject [(str ''text'', x)]) = Inr (str ''default_session'')"
    for x
    by (simp add: sessionId_of_def or_else_def str_def)
  show ?thesis
    using s
      falsy_text_is_client_error [of "[(str ''text'', JNumber (Finite 0))]" "JNumber (Finite 0)"
        example_runtime "str ''default_session''" "always 0"]
      falsy_text_is_client_error [of "[(str ''text'', JBool False)]" "JBool False"
        example_runtime "str ''default_session''" "always 0"]
      falsy_text_is_client_error [of "[(str ''text'', JNull)]" "JNull"
        example_runtime "str ''default_session''" "always 0"]
    by simp
qed

text \<open>
  The claim as the specification words it fails at the body
  \<^verbatim>\<open>{"session_id": {"toString": 1}, "text": 0}\<close>: the status is 500.
\<close>

theorem falsy_text_counterexample:
  "map_of [(str ''session_id'', own_toString), (str ''text'', JNumber (Finite 0))] (str ''text'')
     = Some (JNumber (Finite 0))
   \<and> statusCode (fst (handler example_runtime (always 0) \<lparr>event.body = Some (Json (JObject
        [(str ''session_id'', own_toString), (str ''text'', JNumber (Finite 0))]))\<rparr>)) = 500"
proof -
  have m: "map_of [(str ''session_id'', own_toString), (str ''text'', JNumber (Finite 0))] (str ''text'')
     = Some (JNumber (Finite 0))"
    by (simp add: text_not_session_id)
  have "text_of example_runtime (JObject
        [(str ''session_id'', own_toString), (str ''text'', JNumber (Finite 0))]) = Inr []"
    using text_of_falsy [OF m, of example_runtime] by simp
  then show ?thesis
    using m by (simp add: handler_json sessionId_of_trap server_error_response_def)
qed

text \<open>
  Claim C8, as the code has it. The value of \<^verbatim>\<open>session_id\<close> reaches the response in
  one way only: through whether its conversion to a string throws. For two request bodies
  that are JSON objects with the same fields once \<^verbatim>\<open>session_id\<close> is left out, and the
  same random draws: if \<^verbatim>\<open>String(data.session_id || 'default_session')\<close> throws for both
  or for neither, the handler gives the same status, headers and body, and makes the same
  number of calls of \<^verbatim>\<open>Math.random\<close>.
\<close>

theorem session_id_noninterference:
  assumes "filter (\<lambda>p. fst p \<noteq> str ''session_id'') ps
         = filter (\<lambda>p. fst p \<noteq> str ''session_id'') qs"
    and "isl (sessionId_of rt (JObject ps)) \<longleftrightarrow> isl (sessionId_of rt (JObject qs))"
  shows "handler rt rnd \<lparr>event.body = Some (Json (JObject ps))\<rparr>
       = handler rt rnd \<lparr>event.body = Some (Json (JObject qs))\<rparr>"
proof -
  have "map_of ps (str ''text'')
      = map_of (filter (\<lambda>p. fst p \<noteq> str ''session_id'') ps) (str ''text'')"
    by (simp add: map_of_other_fields text_not_session_id)
  also have "\<dots> = map_of qs (str ''text'')"
    unfolding assms(1) by (simp add: map_of_other_fields text_not_session_id)
  finally have "text_of rt (JObject ps) = text_of rt (JObject qs)" by (rule text_of_cong)
  then show ?thesis
    using assms(2) by (auto simp: handler_json split: sum.splits)
qed

text \<open>
  The bodies \<^verbatim>\<open>{"text": "I love you"}\<close> and
  \<^verbatim>\<open>{"text": "I love you", "session_id": ["a", null]}\<close>.
\<close>

theorem session_id_noninterference_witness:
  "filter (\<lambda>p. fst p \<noteq> str ''session_id'') [(str ''text'', JString (str ''I love you''))]
     = filter (\<lambda>p. fst p \<noteq> str ''session_id'')
         [(str ''text'', JString (str ''I love you'')),
          (str ''session_id'', JArray [JString (str ''a''), JNull])]
   \<and> (isl (sessionId_of example_runtime (JObject [(str ''text'', JString (str ''I love you''))]))
        \<longleftrightarrow> isl (sessionId_of example_runtime (JObject
               [(str ''text'', JString (str ''I love you'')),
                (str ''session_id'', JArray [JString (str ''a''), JNull])])))
   \<and> handler example_runtime (always (1/2))
        \<lparr>event.body = Some (Json (JObject [(str ''text'', JString (str ''I love you''))]))\<rparr>
       = handler example_runtime (always (1/2)) \<lparr>event.body = Some (Json (JObject
           [(str ''text'', JString (str ''I love you'')),
            (str ''session_id'', JArray [JString (str ''a''), JNull])]))\<rparr>"
proof -
  let ?ps = "[(str ''text'', JString (str ''I love you''))]"
  let ?qs = "[(str ''text'', JString (str ''I love you'')),
              (str ''session_id'', JArray [JString (str ''a''), JNull])]"
  have 1: "filter (\<lambda>p. fst p \<noteq> str ''session_id'') ?ps
         = filter (\<lambda>p. fst p \<noteq> str ''session_id'') ?qs"
    by (simp add: text_not_session_id)
  have 2: "isl (sessionId_of example_runtime (JObject ?ps))
       \<longleftrightarrow> isl (sessionId_of example_runtime (JObject ?qs))"
    by (simp add: isl_sessionId_of field_def text_not_session_id)
  show ?thesis
    using 1 2 session_id_noninterference [OF 1 2, of "always (1/2)"] by blast
qed

text \<open>
  The claim as the specification words it fails at the bodies
  \<^verbatim>\<open>{"session_id": "abc", "text": "hi"}\<close> and
  \<^verbatim>\<open>{"session_id": {"toString": 1}, "text": "hi"}\<close>, which differ in \<^verbatim>\<open>session_id\<close>
  only: the first is answered with status 200, the second with status 500.
\<close>

theorem session_id_counterexample:
  "statusCode (fst (handler example_runtime (always 0) \<lparr>event.body = Some (Json (JObject
      [(str ''session_id'', JString (str ''abc'')), (str ''text'', JString (str ''hi''))]))\<rparr>)) = 200
   \<and> statusCode (fst (handler example_runtime (always 0) \<lparr>event.body = Some (Json (JObject
      [(str ''session_id'', own_toString), (str ''text'', JString (str ''hi''))]))\<rparr>)) = 500"
proof -
  have t: "trim (str ''hi'') = str ''hi''" by code_simp
  have ne: "str ''hi'' \<noteq> []" by (simp add: str_def)
  have "text_of example_runtime (JObject
      [(str ''session_id'', JString (str ''abc'')), (str ''text'', JString (str ''hi''))])
      = Inr (str ''hi'')"
    using text_of_string [of "[(str ''session_id'', JString (str ''abc'')), (str ''text'', JString (str ''hi''))]"
        "str ''hi''" example_runtime]
    by (simp add: t text_not_session_id)
  moreover have "sessionId_of example_runtime (JObject
      [(str ''session_id'', JString (str ''abc'')), (str ''text'', JString (str ''hi''))])
      = Inr (str ''abc'')"
    by (simp add: sessionId_of_def or_else_def str_def)
  moreover have "text_of example_runtime (JObject
      [(str ''session_id'', own_toString), (str ''text'', JString (str ''hi''))]) = Inr (str ''hi'')"
    using text_of_string [of "[(str ''session_id'', own_toString), (str ''text'', JString (str ''hi''))]"
        "str ''hi''" example_runtime]
    by (simp add: t text_not_session_id)
  ultimately show ?thesis
    using ne
    by (simp add: handler_json sessionId_of_trap server_error_response_def success_response_def)
qed

text \<open>
  Claim C9, as the code has it. A request without a body or with the empty body is
  answered with status 400. A body that is valid JSON is answered with status 200, 400 or
  500, and with 500 exactly when a \<^verbatim>\<open>TypeError\<close> is thrown in lines 4 and 5: the parsed
  value is \<^verbatim>\<open>null\<close> (reading a property of it throws), or its \<^verbatim>\<open>text\<close> or its
  \<^verbatim>\<open>session_id\<close> is a value on which \<^verbatim>\<open>String\<close> throws, an object with an own
  property \<^verbatim>\<open>toString\<close> or an array with such an element. So the \<^verbatim>\<open>catch\<close> block is
  reached by a failure of \<^verbatim>\<open>JSON.parse\<close> and by these errors.
\<close>

theorem server_error_reachability:
  "(event.body ev = None \<or> event.body ev = Some (Malformed []) \<longrightarrow>
      handler rt rnd ev = (no_text_response, 0))
   \<and> (event.body ev = Some (Json x) \<longrightarrow>
        (statusCode (fst (handler rt rnd ev)) = 500 \<longleftrightarrow>
           x = JNull \<or> x = JUndefined
           \<or> String_throws (field x (str ''text'')) \<or> String_throws (field x (str ''session_id'')))
        \<and> (statusCode (fst (handler rt rnd ev)) = 200
            \<or> statusCode (fst (handler rt rnd ev)) = 400
            \<or> statusCode (fst (handler rt rnd ev)) = 500))"
proof -
  have "handler rt rnd ev = (no_text_response, 0)"
    if "event.body ev = None \<or> event.body ev = Some (Malformed [])"
    using that by (rule handler_no_body)
  moreover have "(statusCode (fst (handler rt rnd ev)) = 500 \<longleftrightarrow>
           x = JNull \<or> x = JUndefined
           \<or> String_throws (field x (str ''text'')) \<or> String_throws (field x (str ''session_id'')))
        \<and> (statusCode (fst (handler rt rnd ev)) = 200
            \<or> statusCode (fst (handler rt rnd ev)) = 400
            \<or> statusCode (fst (handler rt rnd ev)) = 500)"
    if "event.body ev = Some (Json x)"
  proof -
    have ev: "ev = \<lparr>event.body = Some (Json x)\<rparr>" using that by (cases ev) simp
    have "statusCode (fst (handler rt rnd ev)) = 500
        \<longleftrightarrow> isl (text_of rt x) \<or> isl (sessionId_of rt x)"
      unfolding ev
      by (auto simp: handler_json server_error_response_def no_text_response_def
          success_response_def split: sum.splits)
    moreover have "statusCode (fst (handler rt rnd ev)) = 200
            \<or> statusCode (fst (handler rt rnd ev)) = 400
            \<or> statusCode (fst (handler rt rnd ev)) = 500"
      unfolding ev
      by (auto simp: handler_json server_error_response_def no_text_response_def
          success_response_def split: sum.splits)
    ultimately show ?thesis
      unfolding isl_text_of isl_sessionId_of by blast
  qed
  ultimately show ?thesis by blast
qed

text \<open>
  A request without a body, the body \<^verbatim>\<open>[1]\<close>, which has no fields, and the body
  \<^verbatim>\<open>{"text": {"toString": 1}}\<close>.
\<close>

theorem server_error_reachability_witness:
  "handler example_runtime (always 0) \<lparr>event.body = None\<rparr> = (no_text_response, 0)
   \<and> statusCode (fst (handler example_runtime (always 0)
        \<lparr>event.body = Some (Json (JArray [JNumber (Finite 1)]))\<rparr>)) = 400
   \<and> String_throws (field (JObject [(str ''text'', own_toString)]) (str ''text''))
   \<and> statusCode (fst (handler example_runtime (always 0)
        \<lparr>event.body = Some (Json (JObject [(str ''text'', own_toString)]))\<rparr>)) = 500"
proof -
  have 1: "\<not> String_throws (field (JArray [JNumber (Finite 1)]) (str ''text''))"
    "\<not> String_throws (field (JArray [JNumber (Finite 1)]) (str ''session_id''))"
    by (simp_all add: field_def)
  have 2: "String_throws (field (JObject [(str ''text'', own_toString)]) (str ''text''))"
    by (simp add: field_def own_toString_def)
  have 3: "statusCode (fst (handler example_runtime (always 0)
      \<lparr>event.body = Some (Json (JArray [JNumber (Finite 1)]))\<rparr>)) \<noteq> 200"
    by (simp add: handler_json text_of_def sessionId_of_def or_else_def trim_def no_text_response_def)
  show ?thesis
    using 1 2 3
      server_error_reachability [where ev = "\<lparr>event.body = None\<rparr>"
        and rt = example_runtime and rnd = "always 0"]
      server_error_reachability [where ev = "\<lparr>event.body = Some (Json (JArray [JNumber (Finite 1)]))\<rparr>"
        and x = "JArray [JNumber (Finite 1)]" and rt = example_runtime and rnd = "always 0"]
      server_error_reachability [where ev = "\<lparr>event.body = Some (Json (JObject [(str ''text'', own_toString)]))\<rparr>"
        and x = "JObject [(str ''text'', own_toString)]" and rt = example_runtime and rnd = "always 0"]
    by auto
qed

text \<open>
  The claim as the specification words it fails at the body \<^verbatim>\<open>null\<close>, which is valid
  JSON: reading \<^verbatim>\<open>data.text\<close> throws, and the status is 500.
\<close>

theorem server_error_counterexample:
  "JSON_parse (Json JNull) = Inr JNull
   \<and> statusCode (fst (handler example_runtime (always 0) \<lparr>event.body = Some (Json JNull)\<rparr>)) = 500"
  by (simp add: handler_json text_of_def server_error_response_def)

end
